theory Spec2Isabelle
  imports Main "HOL-Library.AList" "HOL-Library.Sublist" "HOL-Library.Word"
begin

section \<open>Errors\<close>

text \<open>
  The error values of the Go code: \<^verbatim>\<open>errutil.UserError{Err: ...}\<close>,
  \<^verbatim>\<open>errutil.InternalError{Err: ...}\<close>, and every other error value
  (\<^verbatim>\<open>fmt.Errorf\<close>, \<^verbatim>\<open>errors.New\<close>, an error of the storage backend or of a
  library), which carries no type of its own. The string is the static part of the message;
  values interpolated by \<^verbatim>\<open>Sprintf\<close> are left out.
\<close>

datatype err = UserError string | InternalError string | PlainError string

text \<open>The type switch \<^verbatim>\<open>switch e.(type) { case errutil.UserError: ... default: ... }\<close>.\<close>

fun isUserError :: "err \<Rightarrow> bool" where
  "isUserError (UserError m) = True"
| "isUserError (InternalError m) = False"
| "isUserError (PlainError m) = False"

section \<open>Records of storage.go\<close>

text \<open>
  \<^verbatim>\<open>keyID\<close>, \<^verbatim>\<open>issuerID\<close> and \<^verbatim>\<open>crlID\<close> are Go strings. An instant
  (\<^verbatim>\<open>time.Time\<close>) is the number of nanoseconds since Go's zero instant, so that
  \<^verbatim>\<open>IsZero\<close> is equality with 0.
\<close>

type_synonym keyID = string
type_synonym issuerID = string
type_synonym crlID = string
type_synonym instant = int

record keyEntry =
  ID :: keyID
  Name :: string
  PrivateKeyType :: string
  PrivateKey :: string

datatype NotAfterBehavior = ErrNotAfterBehavior | TruncateNotAfterBehavior | PermitNotAfterBehavior

record issuerEntry =
  ID :: issuerID
  Name :: string
  KeyID :: keyID
  Certificate :: string
  CAChain :: "string list"
  ManualChain :: "issuerID list"
  SerialNumber :: string
  LeafNotAfterBehavior :: NotAfterBehavior

text \<open>
  The two Go maps of the cluster-local CRL configuration are only ever read at a key and
  updated at a key. \<^verbatim>\<open>CRLNumberMap\<close> holds \<^verbatim>\<open>int64\<close> values.
\<close>

record localCRLConfigEntry =
  IssuerIDCRLMap :: "issuerID \<rightharpoonup> crlID"
  CRLNumberMap :: "crlID \<rightharpoonup> 64 word"

record keyConfigEntry =
  DefaultKeyId :: keyID

record issuerConfigEntry =
  DefaultIssuerId :: issuerID

text \<open>\<^verbatim>\<open>revocationInfo\<close> of crl_util.go.\<close>

record revocationInfo =
  CertificateBytes :: string
  RevocationTime :: int
  RevocationTimeUTC :: instant
  CertificateIssuer :: issuerID

section \<open>The storage backend\<close>

text \<open>
  What a storage entry holds. The JSON documents are kept as the records they encode.
  \<open>Bytes\<close> is a raw value that is no JSON document (a DER certificate, a signed CRL).
\<close>

datatype sval =
    JKey keyEntry
  | JIssuer issuerEntry
  | JKeyConfig keyConfigEntry
  | JIssuerConfig issuerConfigEntry
  | JLocalCRLConfig localCRLConfigEntry
  | JRevocationInfo revocationInfo
  | Bytes string

text \<open>
  \<^verbatim>\<open>entry.DecodeJSON\<close> into a record type. \<^verbatim>\<open>encoding/json\<close> fills the fields whose
  JSON names the document has, ignores the names it does not know and leaves the other
  fields at their zero values, without an error: the documents of keys and of issuers share
  \<^verbatim>\<open>id\<close> and \<^verbatim>\<open>name\<close>, the two configuration documents share \<^verbatim>\<open>default\<close>, and no
  other name is shared. Only a value that is no JSON document fails to decode.
\<close>

fun decodeKeyEntry :: "sval \<Rightarrow> keyEntry option" where
  "decodeKeyEntry (JKey k) = Some k"
| "decodeKeyEntry (JIssuer i) =
     Some \<lparr>keyEntry.ID = issuerEntry.ID i, keyEntry.Name = issuerEntry.Name i,
           PrivateKeyType = '''', PrivateKey = ''''\<rparr>"
| "decodeKeyEntry (Bytes bs) = None"
| "decodeKeyEntry _ =
     Some \<lparr>keyEntry.ID = '''', keyEntry.Name = '''', PrivateKeyType = '''', PrivateKey = ''''\<rparr>"

fun decodeIssuerEntry :: "sval \<Rightarrow> issuerEntry option" where
  "decodeIssuerEntry (JIssuer i) = Some i"
| "decodeIssuerEntry (JKey k) =
     Some \<lparr>issuerEntry.ID = keyEntry.ID k, issuerEntry.Name = keyEntry.Name k, KeyID = '''',
           Certificate = '''', CAChain = [], ManualChain = [], SerialNumber = '''',
           LeafNotAfterBehavior = ErrNotAfterBehavior\<rparr>"
| "decodeIssuerEntry (Bytes bs) = None"
| "decodeIssuerEntry _ =
     Some \<lparr>issuerEntry.ID = '''', issuerEntry.Name = '''', KeyID = '''', Certificate = '''',
           CAChain = [], ManualChain = [], SerialNumber = '''',
           LeafNotAfterBehavior = ErrNotAfterBehavior\<rparr>"

fun decodeKeyConfig :: "sval \<Rightarrow> keyConfigEntry option" where
  "decodeKeyConfig (JKeyConfig c) = Some c"
| "decodeKeyConfig (JIssuerConfig c) = Some \<lparr>DefaultKeyId = DefaultIssuerId c\<rparr>"
| "decodeKeyConfig (Bytes bs) = None"
| "decodeKeyConfig _ = Some \<lparr>DefaultKeyId = ''''\<rparr>"

fun decodeIssuerConfig :: "sval \<Rightarrow> issuerConfigEntry option" where
  "decodeIssuerConfig (JIssuerConfig c) = Some c"
| "decodeIssuerConfig (JKeyConfig c) = Some \<lparr>DefaultIssuerId = DefaultKeyId c\<rparr>"
| "decodeIssuerConfig (Bytes bs) = None"
| "decodeIssuerConfig _ = Some \<lparr>DefaultIssuerId = ''''\<rparr>"

fun decodeLocalCRLConfig :: "sval \<Rightarrow> localCRLConfigEntry option" where
  "decodeLocalCRLConfig (JLocalCRLConfig c) = Some c"
| "decodeLocalCRLConfig (Bytes bs) = None"
| "decodeLocalCRLConfig _ = Some \<lparr>IssuerIDCRLMap = Map.empty, CRLNumberMap = Map.empty\<rparr>"

fun decodeRevocationInfo :: "sval \<Rightarrow> revocationInfo option" where
  "decodeRevocationInfo (JRevocationInfo r) = Some r"
| "decodeRevocationInfo (Bytes bs) = None"
| "decodeRevocationInfo _ =
     Some \<lparr>CertificateBytes = '''', revocationInfo.RevocationTime = 0, RevocationTimeUTC = 0,
           CertificateIssuer = ''''\<rparr>"

text \<open>
  Modelled from the spec: the key-value storage engine (\<^verbatim>\<open>logical.Storage\<close>) is an
  external collaborator offering get, put, delete and list-by-prefix with no multi-key
  transaction. The entries are kept in the order in which their keys were first written.
  \<open>faulty\<close> lists the operations, each with its key (for get, put and delete) or its
  prefix (for list), on which the backend reports an error instead of answering; a failed
  operation changes nothing.
\<close>

datatype storageOp = OpGet | OpPut | OpDelete | OpList

record storage =
  entries :: "(string \<times> sval) list"
  faulty :: "(storageOp \<times> string) list"

definition Storage_Get :: "storage \<Rightarrow> string \<Rightarrow> err + sval option" where
  "Storage_Get s p =
     (if (OpGet, p) \<in> set (faulty s) then Inl (PlainError ''storage: get failed'')
      else Inr (map_of (entries s) p))"

definition Storage_Put :: "storage \<Rightarrow> string \<Rightarrow> sval \<Rightarrow> err + storage" where
  "Storage_Put s p v =
     (if (OpPut, p) \<in> set (faulty s) then Inl (PlainError ''storage: put failed'')
      else Inr (s\<lparr>entries := AList.update p v (entries s)\<rparr>))"

definition Storage_Delete :: "storage \<Rightarrow> string \<Rightarrow> err + storage" where
  "Storage_Delete s p =
     (if (OpDelete, p) \<in> set (faulty s) then Inl (PlainError ''storage: delete failed'')
      else Inr (s\<lparr>entries := AList.delete p (entries s)\<rparr>))"

text \<open>\<^verbatim>\<open>strings.TrimPrefix\<close>, telling whether the prefix was there.\<close>

fun trimPrefix :: "string \<Rightarrow> string \<Rightarrow> string option" where
  "trimPrefix [] s = Some s"
| "trimPrefix (p # ps) [] = None"
| "trimPrefix (p # ps) (c # cs) = (if p = c then trimPrefix ps cs else None)"

text \<open>A listing names the entries below the prefix up to the next \<^verbatim>\<open>/\<close>, each once.\<close>

fun upToSlash :: "string \<Rightarrow> string" where
  "upToSlash [] = []"
| "upToSlash (c # cs) = (if c = CHR ''/'' then [c] else c # upToSlash cs)"

definition Storage_List :: "storage \<Rightarrow> string \<Rightarrow> err + string list" where
  "Storage_List s pfx =
     (if (OpList, pfx) \<in> set (faulty s) then Inl (PlainError ''storage: list failed'')
      else Inr (remdups (List.map_filter
                  (\<lambda>(p, v). map_option upToSlash (trimPrefix pfx p)) (entries s))))"

section \<open>storage.go: paths and configuration records\<close>

definition storageKeyConfig :: string where "storageKeyConfig = ''config/keys''"
definition storageIssuerConfig :: string where "storageIssuerConfig = ''config/issuers''"
definition keyPrefix :: string where "keyPrefix = ''config/key/''"
definition issuerPrefix :: string where "issuerPrefix = ''config/issuer/''"
definition storageLocalCRLConfig :: string where "storageLocalCRLConfig = ''crls/config''"
definition revokedPath :: string where "revokedPath = ''revoked/''"

definition IssuerRefNotFound :: issuerID where "IssuerRefNotFound = ''not-found''"
definition KeyRefNotFound :: keyID where "KeyRefNotFound = ''not-found''"
definition defaultRef :: string where "defaultRef = ''default''"

text \<open>
  \<^verbatim>\<open>logical.StorageEntryJSON\<close> cannot fail on these records, so the branches on its error
  are not reachable and a write is the put of the document.
\<close>

definition setKeysConfig :: "storage \<Rightarrow> keyConfigEntry \<Rightarrow> err + storage" where
  "setKeysConfig s config = Storage_Put s storageKeyConfig (JKeyConfig config)"

definition getKeysConfig :: "storage \<Rightarrow> err + keyConfigEntry" where
  "getKeysConfig s =
     (case Storage_Get s storageKeyConfig of
        Inl e \<Rightarrow> Inl e
      | Inr None \<Rightarrow> Inr \<lparr>DefaultKeyId = ''''\<rparr>
      | Inr (Some entry) \<Rightarrow>
          (case decodeKeyConfig entry of
             None \<Rightarrow> Inl (InternalError ''unable to decode key configuration'')
           | Some keyConfig \<Rightarrow> Inr keyConfig))"

definition setIssuersConfig :: "storage \<Rightarrow> issuerConfigEntry \<Rightarrow> err + storage" where
  "setIssuersConfig s config = Storage_Put s storageIssuerConfig (JIssuerConfig config)"

definition getIssuersConfig :: "storage \<Rightarrow> err + issuerConfigEntry" where
  "getIssuersConfig s =
     (case Storage_Get s storageIssuerConfig of
        Inl e \<Rightarrow> Inl e
      | Inr None \<Rightarrow> Inr \<lparr>DefaultIssuerId = ''''\<rparr>
      | Inr (Some entry) \<Rightarrow>
          (case decodeIssuerConfig entry of
             None \<Rightarrow> Inl (InternalError ''unable to decode issuer configuration'')
           | Some issuerConfig \<Rightarrow> Inr issuerConfig))"

definition setLocalCRLConfig :: "storage \<Rightarrow> localCRLConfigEntry \<Rightarrow> err + storage" where
  "setLocalCRLConfig s mapping = Storage_Put s storageLocalCRLConfig (JLocalCRLConfig mapping)"

text \<open>An absent record reads as a configuration with two empty maps.\<close>

definition getLocalCRLConfig :: "storage \<Rightarrow> err + localCRLConfigEntry" where
  "getLocalCRLConfig s =
     (case Storage_Get s storageLocalCRLConfig of
        Inl e \<Rightarrow> Inl e
      | Inr None \<Rightarrow> Inr \<lparr>IssuerIDCRLMap = Map.empty, CRLNumberMap = Map.empty\<rparr>
      | Inr (Some entry) \<Rightarrow>
          (case decodeLocalCRLConfig entry of
             None \<Rightarrow>
               Inl (InternalError ''unable to decode cluster-local CRL configuration'')
           | Some mapping \<Rightarrow> Inr mapping))"

section \<open>storage.go: keys and issuers\<close>

definition listKeys :: "storage \<Rightarrow> err + keyID list" where
  "listKeys s = Storage_List s keyPrefix"

definition listIssuers :: "storage \<Rightarrow> err + issuerID list" where
  "listIssuers s = Storage_List s issuerPrefix"

definition fetchKeyById :: "storage \<Rightarrow> keyID \<Rightarrow> err + keyEntry" where
  "fetchKeyById s keyId =
     (if length keyId = 0
      then Inl (InternalError ''unable to fetch pki key: empty key identifier'')
      else case Storage_Get s (keyPrefix @ keyId) of
        Inl e \<Rightarrow> Inl (InternalError ''unable to fetch pki key'')
      | Inr None \<Rightarrow> Inl (UserError ''pki key id does not exist'')
      | Inr (Some entry) \<Rightarrow>
          (case decodeKeyEntry entry of
             None \<Rightarrow> Inl (InternalError ''unable to decode pki key'')
           | Some key \<Rightarrow> Inr key))"

definition writeKey :: "storage \<Rightarrow> keyEntry \<Rightarrow> err + storage" where
  "writeKey s k = Storage_Put s (keyPrefix @ keyEntry.ID k) (JKey k)"

text \<open>
  \<^verbatim>\<open>deleteKey\<close> returns \<^verbatim>\<open>(wasDefault, err)\<close>; the third component is the storage it
  leaves.
\<close>

definition deleteKey :: "storage \<Rightarrow> keyID \<Rightarrow> bool \<times> err option \<times> storage" where
  "deleteKey s id' =
     (case getKeysConfig s of
        Inl e \<Rightarrow> (False, Some e, s)
      | Inr config \<Rightarrow>
          if DefaultKeyId config = id'
          then (case setKeysConfig s (config\<lparr>DefaultKeyId := ''''\<rparr>) of
                  Inl e \<Rightarrow> (True, Some e, s)
                | Inr s1 \<Rightarrow>
                    (case Storage_Delete s1 (keyPrefix @ id') of
                       Inl e \<Rightarrow> (True, Some e, s1)
                     | Inr s2 \<Rightarrow> (True, None, s2)))
          else (case Storage_Delete s (keyPrefix @ id') of
                  Inl e \<Rightarrow> (False, Some e, s)
                | Inr s2 \<Rightarrow> (False, None, s2)))"

definition fetchIssuerById :: "storage \<Rightarrow> issuerID \<Rightarrow> err + issuerEntry" where
  "fetchIssuerById s issuerId =
     (if length issuerId = 0
      then Inl (InternalError ''unable to fetch pki issuer: empty issuer identifier'')
      else case Storage_Get s (issuerPrefix @ issuerId) of
        Inl e \<Rightarrow> Inl (InternalError ''unable to fetch pki issuer'')
      | Inr None \<Rightarrow> Inl (UserError ''pki issuer id does not exist'')
      | Inr (Some entry) \<Rightarrow>
          (case decodeIssuerEntry entry of
             None \<Rightarrow> Inl (InternalError ''unable to decode pki issuer'')
           | Some issuer \<Rightarrow> Inr issuer))"

definition writeIssuer :: "storage \<Rightarrow> issuerEntry \<Rightarrow> err + storage" where
  "writeIssuer s issuer = Storage_Put s (issuerPrefix @ issuerEntry.ID issuer) (JIssuer issuer)"

definition deleteIssuer :: "storage \<Rightarrow> issuerID \<Rightarrow> bool \<times> err option \<times> storage" where
  "deleteIssuer s id' =
     (case getIssuersConfig s of
        Inl e \<Rightarrow> (False, Some e, s)
      | Inr config \<Rightarrow>
          if DefaultIssuerId config = id'
          then (case setIssuersConfig s (config\<lparr>DefaultIssuerId := ''''\<rparr>) of
                  Inl e \<Rightarrow> (True, Some e, s)
                | Inr s1 \<Rightarrow>
                    (case Storage_Delete s1 (issuerPrefix @ id') of
                       Inl e \<Rightarrow> (True, Some e, s1)
                     | Inr s2 \<Rightarrow> (True, None, s2)))
          else (case Storage_Delete s (issuerPrefix @ id') of
                  Inl e \<Rightarrow> (False, Some e, s)
                | Inr s2 \<Rightarrow> (False, None, s2)))"

section \<open>Library functions on strings\<close>

text \<open>
  \<^verbatim>\<open>strings.TrimSpace\<close> removes leading and trailing white space as Unicode defines
  it. A Go string is a sequence of bytes; \<open>spaceRunes\<close> lists the UTF-8 encodings of the
  white-space code points (U+0009 to U+000D, U+0020, U+0085, U+00A0, U+1680, U+2000 to U+200A,
  U+2028, U+2029, U+202F, U+205F, U+3000).
\<close>

definition spaceRunes :: "string list" where
  "spaceRunes =
     [[CHR 0x09], [CHR 0x0A], [CHR 0x0B], [CHR 0x0C], [CHR 0x0D], [CHR 0x20],
      [CHR 0xC2, CHR 0x85], [CHR 0xC2, CHR 0xA0], [CHR 0xE1, CHR 0x9A, CHR 0x80],
      [CHR 0xE2, CHR 0x80, CHR 0x80], [CHR 0xE2, CHR 0x80, CHR 0x81],
      [CHR 0xE2, CHR 0x80, CHR 0x82], [CHR 0xE2, CHR 0x80, CHR 0x83],
      [CHR 0xE2, CHR 0x80, CHR 0x84], [CHR 0xE2, CHR 0x80, CHR 0x85],
      [CHR 0xE2, CHR 0x80, CHR 0x86], [CHR 0xE2, CHR 0x80, CHR 0x87],
      [CHR 0xE2, CHR 0x80, CHR 0x88], [CHR 0xE2, CHR 0x80, CHR 0x89],
      [CHR 0xE2, CHR 0x80, CHR 0x8A], [CHR 0xE2, CHR 0x80, CHR 0xA8],
      [CHR 0xE2, CHR 0x80, CHR 0xA9], [CHR 0xE2, CHR 0x80, CHR 0xAF],
      [CHR 0xE2, CHR 0x81, CHR 0x9F], [CHR 0xE3, CHR 0x80, CHR 0x80]]"

text \<open>The number of bytes of the white-space rune a string starts (ends) with; 0 if none.\<close>

definition leadingSpace :: "string \<Rightarrow> nat" where
  "leadingSpace s = (case List.find (\<lambda>r. prefix r s) spaceRunes of None \<Rightarrow> 0 | Some r \<Rightarrow> length r)"

definition trailingSpace :: "string \<Rightarrow> nat" where
  "trailingSpace s = (case List.find (\<lambda>r. suffix r s) spaceRunes of None \<Rightarrow> 0 | Some r \<Rightarrow> length r)"

lemma leadingSpace_le: "leadingSpace s \<le> length s"
  by (auto simp: leadingSpace_def find_Some_iff prefix_length_le split: option.splits)

lemma trailingSpace_le: "trailingSpace s \<le> length s"
  by (auto simp: trailingSpace_def find_Some_iff suffix_length_le split: option.splits)

function TrimLeft :: "string \<Rightarrow> string" where
  "TrimLeft s = (if leadingSpace s = 0 then s else TrimLeft (drop (leadingSpace s) s))"
  by pat_completeness auto
termination
proof (relation "measure length")
  fix s :: string
  assume "leadingSpace s \<noteq> 0"
  with leadingSpace_le [of s] show "(drop (leadingSpace s) s, s) \<in> measure length"
    by auto
qed simp

function TrimRight :: "string \<Rightarrow> string" where
  "TrimRight s =
     (if trailingSpace s = 0 then s else TrimRight (take (length s - trailingSpace s) s))"
  by pat_completeness auto
termination
proof (relation "measure length")
  fix s :: string
  assume "trailingSpace s \<noteq> 0"
  with trailingSpace_le [of s]
  show "(take (length s - trailingSpace s) s, s) \<in> measure length"
    by auto
qed simp

definition TrimSpace :: "string \<Rightarrow> string" where
  "TrimSpace s = TrimRight (TrimLeft s)"

text \<open>
  \<^verbatim>\<open>strings.ToLower\<close> on the ASCII letters (a serial number is written in hexadecimal
  digits and separators), and \<^verbatim>\<open>strings.Replace(s, old, new, -1)\<close> for one-byte
  \<^verbatim>\<open>old\<close> and \<^verbatim>\<open>new\<close>.
\<close>

definition ToLower :: "string \<Rightarrow> string" where
  "ToLower s =
     map (\<lambda>c. if 65 \<le> (of_char c :: nat) \<and> (of_char c :: nat) \<le> 90
              then char_of ((of_char c :: nat) + 32) else c) s"

definition Replace :: "string \<Rightarrow> char \<Rightarrow> char \<Rightarrow> string" where
  "Replace s old new = map (\<lambda>c. if c = old then new else c) s"

text \<open>
  \<^verbatim>\<open>strings.Count(s, substr)\<close> for a non-empty \<^verbatim>\<open>substr\<close>: the number of
  non-overlapping instances. The first argument counts the bytes still covered by the last
  instance found.
\<close>

fun CountFrom :: "nat \<Rightarrow> string \<Rightarrow> string \<Rightarrow> nat" where
  "CountFrom k substr [] = 0"
| "CountFrom k substr (c # cs) =
     (if k = 0 \<and> prefix substr (c # cs)
      then Suc (CountFrom (length substr - 1) substr cs)
      else CountFrom (k - 1) substr cs)"

definition Count :: "string \<Rightarrow> string \<Rightarrow> nat" where
  "Count s substr = CountFrom 0 substr s"

text \<open>
  \<^verbatim>\<open>certutil.GetHexFormatted(n.Bytes(), sep)\<close>: the big-endian bytes of a
  \<^verbatim>\<open>big.Int\<close>, each as two hexadecimal digits, joined by the separator.
\<close>

definition hexDigit :: "nat \<Rightarrow> char" where
  "hexDigit d = ''0123456789abcdef'' ! (d mod 16)"

function natBytes :: "nat \<Rightarrow> nat list" where
  "natBytes n = (if n = 0 then [] else natBytes (n div 256) @ [n mod 256])"
  by pat_completeness auto
termination
  by (relation "measure id") auto

fun joinWith :: "string \<Rightarrow> string list \<Rightarrow> string" where
  "joinWith sep [] = []"
| "joinWith sep [x] = x"
| "joinWith sep (x # y # ys) = x @ sep @ joinWith sep (y # ys)"

definition GetHexFormatted :: "nat \<Rightarrow> string \<Rightarrow> string" where
  "GetHexFormatted n sep =
     joinWith sep (map (\<lambda>b. [hexDigit (b div 16), hexDigit (b mod 16)]) (natBytes n))"

section \<open>Identifiers\<close>

text \<open>
  \<^verbatim>\<open>uuid.GenerateUUID\<close> reads 16 random bytes and formats them as 8-4-4-4-12
  hexadecimal digits. The random bytes are an input: the number \<open>n\<close> stands for them.
  The read of the random source is taken not to fail, so the \<^verbatim>\<open>panic\<close> of
  \<^verbatim>\<open>genUuid\<close> is not reached.
\<close>

fun hexN :: "nat \<Rightarrow> nat \<Rightarrow> string" where
  "hexN 0 n = []"
| "hexN (Suc k) n = hexN k (n div 16) @ [hexDigit (n mod 16)]"

definition FormatUUID :: "nat \<Rightarrow> string" where
  "FormatUUID n =
     (let h = hexN 32 n
      in take 8 h @ ''-'' @ take 4 (drop 8 h) @ ''-'' @ take 4 (drop 12 h) @ ''-'' @
         take 4 (drop 16 h) @ ''-'' @ drop 20 h)"

text \<open>
  The state an operation runs in: the storage of the request, and the random source, of which
  \<open>rand w k\<close> is what the \<open>k\<close>-th call of \<^verbatim>\<open>uuid.GenerateUUID\<close> reads and
  \<open>drawn w\<close> counts the calls made.
\<close>

record world =
  store :: storage
  rand :: "nat \<Rightarrow> nat"
  drawn :: nat

definition genUuid :: "world \<Rightarrow> string \<times> world" where
  "genUuid w = (FormatUUID (rand w (drawn w)), w\<lparr>drawn := Suc (drawn w)\<rparr>)"

definition genIssuerId :: "world \<Rightarrow> issuerID \<times> world" where
  "genIssuerId w = genUuid w"

definition genKeyId :: "world \<Rightarrow> keyID \<times> world" where
  "genKeyId w = genUuid w"

definition genCRLId :: "world \<Rightarrow> crlID \<times> world" where
  "genCRLId w = genUuid w"

section \<open>Certificates, keys and the functions of the libraries\<close>

text \<open>The fields of \<^verbatim>\<open>x509.Certificate\<close> that the code reads.\<close>

record certificate =
  RawIssuer :: string
  RawSubject :: string
  SerialNumber :: nat
  NotAfter :: instant
  IsCA :: bool
  BasicConstraintsValid :: bool
  PublicKey :: string

text \<open>
  A \<^verbatim>\<open>crypto.Signer\<close>: its public key, and the key type that
  \<^verbatim>\<open>certutil.GetPrivateKeyTypeFromSigner\<close> reads off it.
\<close>

record signer =
  Public :: string
  KeyType :: string

text \<open>\<^verbatim>\<open>pkix.RevokedCertificate\<close> and the template \<^verbatim>\<open>x509.RevocationList\<close>.\<close>

record revokedCertificate =
  SerialNumber :: nat
  RevocationTime :: instant

record revocationList =
  RevokedCertificates :: "revokedCertificate list"
  Number :: "64 word"
  ThisUpdate :: instant
  NextUpdate :: instant

text \<open>
  \<^verbatim>\<open>certutil.CertBundle\<close> (the fields \<^verbatim>\<open>fetchCertBundleByIssuerId\<close> sets) and
  \<^verbatim>\<open>certutil.ParsedCertBundle\<close> (the fields read off a signing bundle).
\<close>

record certBundle =
  PrivateKeyType :: string
  Certificate :: string
  CAChain :: "string list"
  PrivateKey :: string
  SerialNumber :: string

record parsedCertBundle =
  Certificate :: certificate
  PrivateKey :: "signer option"

text \<open>The per-mount CRL configuration (\<^verbatim>\<open>crlConfig\<close>, read by \<^verbatim>\<open>b.CRL\<close>).\<close>

record crlConfig =
  Expiry :: string
  Disable :: bool

text \<open>
  The functions of the Go libraries, and the functions of the package that are not in the
  sources at hand, are parameters of the model. An error of a library function is \<open>None\<close>.

  Modelled from the spec: \<open>CRL\<close> (\<^verbatim>\<open>b.CRL\<close>) reads the per-mount CRL configuration
  (an expiry duration that overrides the global default, and the disabled flag) or finds
  none; \<open>parseCABundle\<close> parses a certificate bundle into a signing bundle;
  \<open>fetchCAInfo\<close> fetches the signing bundle of the issuer a reference names;
  \<open>fetchCertBySerial\<close> looks a record up by its serial below a prefix (the revocation
  record below \<^verbatim>\<open>revoked/\<close>, the certificate record below \<^verbatim>\<open>certs/\<close>), and
  \<open>normalizeSerial\<close> gives the normalized serial a revocation record is keyed by. These
  read the storage and do not change it.

  The map iteration order of Go is not specified. \<open>groupOrder\<close> ranks the (key, subject)
  pairs and \<open>certOrder serial\<close> the issuers for the loop run for a revoked serial: a
  \<^verbatim>\<open>range\<close> over a map visits its keys by rank (keys of equal rank in the order of
  first insertion), so that every order is that of some rank.
\<close>

record env =
  pem_Decode :: "string \<Rightarrow> (string \<times> string) option"
  ParseCertificate :: "string \<Rightarrow> certificate option"
  ParsePEMKey :: "string \<Rightarrow> signer option"
  ComparePublicKeysAndType :: "string \<Rightarrow> string \<Rightarrow> bool option"
  CheckSignatureFrom :: "certificate \<Rightarrow> certificate \<Rightarrow> bool"
  CreateRevocationList :: "revocationList \<Rightarrow> parsedCertBundle \<Rightarrow> string option"
  ParseDuration :: "string \<Rightarrow> int option"
  Now :: instant
  CRL :: "storage \<Rightarrow> err + crlConfig option"
  parseCABundle :: "certBundle \<Rightarrow> err + parsedCertBundle"
  fetchCAInfo :: "storage \<Rightarrow> string \<Rightarrow> err + parsedCertBundle option"
  fetchCertBySerial :: "storage \<Rightarrow> string \<Rightarrow> string \<Rightarrow> err + sval option"
  normalizeSerial :: "string \<Rightarrow> string"
  groupOrder :: "keyID \<times> string \<Rightarrow> nat"
  certOrder :: "string \<Rightarrow> issuerID \<Rightarrow> nat"

text \<open>
  The backend: the global CRL lifetime and what \<^verbatim>\<open>b.System()\<close> answers. The CRL
  builder holds the flag \<^verbatim>\<open>forceRebuild\<close> (\<^verbatim>\<open>uint32\<close>); its mutex serialises
  the callers and has no part in a sequential run.
\<close>

record backend =
  crlLifetime :: int
  Tainted :: bool
  ReplicationPerformanceStandby :: bool
  ReplicationDRSecondary :: bool

record crlBuilder =
  forceRebuild :: "32 word"

section \<open>storage.go: certificates of issuers, import\<close>

text \<open>\<^verbatim>\<open>keyEntry.GetSigner\<close> and \<^verbatim>\<open>issuerEntry.GetCertificate\<close>.\<close>

definition GetSigner :: "env \<Rightarrow> keyEntry \<Rightarrow> err + signer" where
  "GetSigner env k =
     (case ParsePEMKey env (keyEntry.PrivateKey k) of
        None \<Rightarrow> Inl (PlainError ''unable to parse PEM key'')
      | Some sg \<Rightarrow> Inr sg)"

definition GetCertificate :: "env \<Rightarrow> issuerEntry \<Rightarrow> err + certificate" where
  "GetCertificate env i =
     (case pem_Decode env (issuerEntry.Certificate i) of
        None \<Rightarrow> Inl (InternalError ''unable to parse certificate from issuer: invalid PEM'')
      | Some (block, extra) \<Rightarrow>
          if length (TrimSpace extra) > 0
          then Inl (InternalError ''unable to parse certificate for issuer: trailing PEM data'')
          else (case ParseCertificate env block of
                  None \<Rightarrow> Inl (PlainError ''x509: malformed certificate'')
                | Some c \<Rightarrow> Inr c))"

text \<open>
  Modelled from the spec: \<^verbatim>\<open>isDefaultKeySet\<close>, \<^verbatim>\<open>updateDefaultKeyId\<close>,
  \<^verbatim>\<open>isDefaultIssuerSet\<close> and \<^verbatim>\<open>updateDefaultIssuerId\<close> are not in the sources at
  hand. The configuration singleton holds the default identifier, empty when unset; an
  import promotes the new entry to default by a read-modify-write of the singleton.
\<close>

definition isDefaultKeySet :: "storage \<Rightarrow> err + bool" where
  "isDefaultKeySet s =
     (case getKeysConfig s of Inl e \<Rightarrow> Inl e | Inr config \<Rightarrow> Inr (DefaultKeyId config \<noteq> ''''))"

definition updateDefaultKeyId :: "storage \<Rightarrow> keyID \<Rightarrow> err + storage" where
  "updateDefaultKeyId s id' =
     (case getKeysConfig s of
        Inl e \<Rightarrow> Inl e
      | Inr config \<Rightarrow> setKeysConfig s (config\<lparr>DefaultKeyId := id'\<rparr>))"

definition isDefaultIssuerSet :: "storage \<Rightarrow> err + bool" where
  "isDefaultIssuerSet s =
     (case getIssuersConfig s of
        Inl e \<Rightarrow> Inl e
      | Inr config \<Rightarrow> Inr (DefaultIssuerId config \<noteq> ''''))"

definition updateDefaultIssuerId :: "storage \<Rightarrow> issuerID \<Rightarrow> err + storage" where
  "updateDefaultIssuerId s id' =
     (case getIssuersConfig s of
        Inl e \<Rightarrow> Inl e
      | Inr config \<Rightarrow> setIssuersConfig s (config\<lparr>DefaultIssuerId := id'\<rparr>))"

text \<open>
  Modelled from the spec: \<^verbatim>\<open>rebuildIssuersChains\<close> is not in the sources at hand. Of
  what it does, the import relies on this: it persists the issuer it is given. The
  recomputation of the certificate chains is left out.
\<close>

definition rebuildIssuersChains :: "storage \<Rightarrow> issuerEntry \<Rightarrow> err + storage" where
  "rebuildIssuersChains s referenceCert = writeIssuer s referenceCert"

text \<open>The first loop of \<^verbatim>\<open>importKey\<close>: is the key material stored already?\<close>

fun importKey_existing :: "storage \<Rightarrow> string \<Rightarrow> keyID list \<Rightarrow> err + keyEntry option" where
  "importKey_existing s keyValue [] = Inr None"
| "importKey_existing s keyValue (identifier # rest) =
     (case fetchKeyById s identifier of
        Inl e \<Rightarrow> Inl e
      | Inr existingKey \<Rightarrow>
          if keyEntry.PrivateKey existingKey = keyValue then Inr (Some existingKey)
          else importKey_existing s keyValue rest)"

text \<open>The second loop of \<^verbatim>\<open>importKey\<close>: link the issuers that lack a key.\<close>

fun importKey_link ::
  "env \<Rightarrow> keyID \<Rightarrow> string \<Rightarrow> issuerID list \<Rightarrow> storage \<Rightarrow> err option \<times> storage" where
  "importKey_link env resultID keyPublic [] s = (None, s)"
| "importKey_link env resultID keyPublic (identifier # rest) s =
     (case fetchIssuerById s identifier of
        Inl e \<Rightarrow> (Some e, s)
      | Inr existingIssuer \<Rightarrow>
          if length (KeyID existingIssuer) > 0
          then importKey_link env resultID keyPublic rest s
          else (case GetCertificate env existingIssuer of
                  Inl e \<Rightarrow> (Some e, s)
                | Inr cert \<Rightarrow>
                    (case ComparePublicKeysAndType env (PublicKey cert) keyPublic of
                       None \<Rightarrow> (Some (PlainError ''unable to compare public keys''), s)
                     | Some equal \<Rightarrow>
                         if equal
                         then (case writeIssuer s (existingIssuer\<lparr>KeyID := resultID\<rparr>) of
                                 Inl e \<Rightarrow> (Some e, s)
                               | Inr s' \<Rightarrow> importKey_link env resultID keyPublic rest s')
                         else importKey_link env resultID keyPublic rest s)))"

text \<open>
  \<^verbatim>\<open>importKey\<close> returns the entry, whether it existed, and the error; here the entry and
  the flag are the right summand.
\<close>

definition importKey ::
  "env \<Rightarrow> world \<Rightarrow> string \<Rightarrow> string \<Rightarrow> (err + keyEntry \<times> bool) \<times> world" where
  "importKey env w keyValue0 keyName =
     (let keyValue = TrimSpace keyValue0 @ [CHR 0x0A] in
      case listKeys (store w) of
        Inl e \<Rightarrow> (Inl e, w)
      | Inr knownKeys \<Rightarrow>
      case listIssuers (store w) of
        Inl e \<Rightarrow> (Inl e, w)
      | Inr knownIssuers \<Rightarrow>
      case importKey_existing (store w) keyValue knownKeys of
        Inl e \<Rightarrow> (Inl e, w)
      | Inr (Some existingKey) \<Rightarrow> (Inr (existingKey, True), w)
      | Inr None \<Rightarrow>
          (case genKeyId w of (newId, w1) \<Rightarrow>
           let result0 = \<lparr>keyEntry.ID = newId, keyEntry.Name = keyName,
                          keyEntry.PrivateKeyType = '''', keyEntry.PrivateKey = keyValue\<rparr> in
           case GetSigner env result0 of
             Inl e \<Rightarrow> (Inl e, w1)
           | Inr keySigner \<Rightarrow>
               let keyPublic = Public keySigner;
                   result = result0\<lparr>keyEntry.PrivateKeyType := KeyType keySigner\<rparr> in
               case writeKey (store w1) result of
                 Inl e \<Rightarrow> (Inl e, w1)
               | Inr s1 \<Rightarrow>
                   (case importKey_link env (keyEntry.ID result) keyPublic knownIssuers s1 of
                      (Some e, s2) \<Rightarrow> (Inl e, w1\<lparr>store := s2\<rparr>)
                    | (None, s2) \<Rightarrow>
                        (case isDefaultKeySet s2 of
                           Inl e \<Rightarrow> (Inl e, w1\<lparr>store := s2\<rparr>)
                         | Inr keyDefaultSet \<Rightarrow>
                             if length knownKeys = 0 \<or> \<not> keyDefaultSet
                             then (case updateDefaultKeyId s2 (keyEntry.ID result) of
                                     Inl e \<Rightarrow> (Inl e, w1\<lparr>store := s2\<rparr>)
                                   | Inr s3 \<Rightarrow> (Inr (result, False), w1\<lparr>store := s3\<rparr>))
                             else (Inr (result, False), w1\<lparr>store := s2\<rparr>)))))"

text \<open>The first loop of \<^verbatim>\<open>importIssuer\<close>: is the certificate stored already?\<close>

fun importIssuer_existing ::
  "storage \<Rightarrow> string \<Rightarrow> issuerID list \<Rightarrow> err + issuerEntry option" where
  "importIssuer_existing s certValue [] = Inr None"
| "importIssuer_existing s certValue (identifier # rest) =
     (case fetchIssuerById s identifier of
        Inl e \<Rightarrow> Inl e
      | Inr existingIssuer \<Rightarrow>
          if issuerEntry.Certificate existingIssuer = certValue then Inr (Some existingIssuer)
          else importIssuer_existing s certValue rest)"

text \<open>
  The second loop of \<^verbatim>\<open>importIssuer\<close>: the identifier of the first stored key whose
  public key is that of the certificate (the loop breaks there), or the empty identifier.
\<close>

fun importIssuer_link :: "env \<Rightarrow> storage \<Rightarrow> certificate \<Rightarrow> keyID list \<Rightarrow> err + keyID" where
  "importIssuer_link env s issuerCert [] = Inr ''''"
| "importIssuer_link env s issuerCert (identifier # rest) =
     (case fetchKeyById s identifier of
        Inl e \<Rightarrow> Inl e
      | Inr existingKey \<Rightarrow>
          (case GetSigner env existingKey of
             Inl e \<Rightarrow> Inl e
           | Inr sg \<Rightarrow>
               (case ComparePublicKeysAndType env (PublicKey issuerCert) (Public sg) of
                  None \<Rightarrow> Inl (PlainError ''unable to compare public keys'')
                | Some equal \<Rightarrow>
                    if equal then Inr (keyEntry.ID existingKey)
                    else importIssuer_link env s issuerCert rest)))"

definition importIssuer ::
  "env \<Rightarrow> world \<Rightarrow> string \<Rightarrow> string \<Rightarrow> (err + issuerEntry \<times> bool) \<times> world" where
  "importIssuer env w certValue0 issuerName =
     (let certValue = TrimSpace certValue0 @ [CHR 0x0A] in
      case listIssuers (store w) of
        Inl e \<Rightarrow> (Inl e, w)
      | Inr knownIssuers \<Rightarrow>
      case listKeys (store w) of
        Inl e \<Rightarrow> (Inl e, w)
      | Inr knownKeys \<Rightarrow>
      case importIssuer_existing (store w) certValue knownIssuers of
        Inl e \<Rightarrow> (Inl e, w)
      | Inr (Some existingIssuer) \<Rightarrow> (Inr (existingIssuer, True), w)
      | Inr None \<Rightarrow>
          (case genIssuerId w of (newId, w1) \<Rightarrow>
           let result0 = \<lparr>issuerEntry.ID = newId, issuerEntry.Name = issuerName, KeyID = '''',
                          issuerEntry.Certificate = certValue, issuerEntry.CAChain = [],
                          ManualChain = [], issuerEntry.SerialNumber = '''',
                          LeafNotAfterBehavior = ErrNotAfterBehavior\<rparr> in
           if Count (issuerEntry.Certificate result0) ''-BEGIN '' \<noteq> 1
           then (Inl (PlainError
                   ''bad issuer: potentially multiple PEM blobs in one certificate storage entry''),
                 w1)
           else
           case GetCertificate env result0 of
             Inl e \<Rightarrow> (Inl e, w1)
           | Inr issuerCert \<Rightarrow>
               if \<not> BasicConstraintsValid issuerCert \<or> \<not> IsCA issuerCert
               then (Inl (UserError ''Refusing to import non-CA certificate''), w1)
               else
               let result1 = result0\<lparr>issuerEntry.SerialNumber :=
                     TrimSpace (GetHexFormatted (certificate.SerialNumber issuerCert) '':'')\<rparr> in
               case importIssuer_link env (store w1) issuerCert knownKeys of
                 Inl e \<Rightarrow> (Inl e, w1)
               | Inr linked \<Rightarrow>
                   let result = result1\<lparr>KeyID := linked\<rparr> in
                   case rebuildIssuersChains (store w1) result of
                     Inl e \<Rightarrow> (Inl e, w1)
                   | Inr s1 \<Rightarrow>
                       (case isDefaultIssuerSet s1 of
                          Inl e \<Rightarrow> (Inl e, w1\<lparr>store := s1\<rparr>)
                        | Inr issuerDefaultSet \<Rightarrow>
                            if length knownIssuers = 0 \<or> \<not> issuerDefaultSet
                            then (case updateDefaultIssuerId s1 (issuerEntry.ID result) of
                                    Inl e \<Rightarrow> (Inl e, w1\<lparr>store := s1\<rparr>)
                                  | Inr s2 \<Rightarrow> (Inr (result, False), w1\<lparr>store := s2\<rparr>))
                            else (Inr (result, False), w1\<lparr>store := s1\<rparr>))))"

text \<open>\<^verbatim>\<open>fetchCertBundleByIssuerId\<close>.\<close>

definition fetchCertBundleByIssuerId ::
  "storage \<Rightarrow> issuerID \<Rightarrow> bool \<Rightarrow> err + issuerEntry \<times> certBundle" where
  "fetchCertBundleByIssuerId s id' loadKey =
     (case fetchIssuerById s id' of
        Inl e \<Rightarrow> Inl e
      | Inr issuer \<Rightarrow>
          let bundle = \<lparr>certBundle.PrivateKeyType = '''',
                        certBundle.Certificate = issuerEntry.Certificate issuer,
                        certBundle.CAChain = issuerEntry.CAChain issuer,
                        certBundle.PrivateKey = '''',
                        certBundle.SerialNumber = issuerEntry.SerialNumber issuer\<rparr> in
          if loadKey \<and> KeyID issuer \<noteq> ''''
          then (case fetchKeyById s (KeyID issuer) of
                  Inl e \<Rightarrow> Inl e
                | Inr key \<Rightarrow>
                    Inr (issuer, bundle\<lparr>certBundle.PrivateKeyType := keyEntry.PrivateKeyType key,
                                        certBundle.PrivateKey := keyEntry.PrivateKey key\<rparr>))
          else Inr (issuer, bundle))"

section \<open>crl_util.go: building one CRL\<close>

text \<open>
  The part of \<^verbatim>\<open>buildCRL\<close> below the label \<^verbatim>\<open>WRITE\<close>: fetch the bundle of the
  issuer with its key, parse it, sign the revocation list and store the bytes at
  \<^verbatim>\<open>crls/<identifier>\<close>. The two reads of the clock are taken at one instant.
\<close>

definition buildCRL_write ::
  "env \<Rightarrow> storage \<Rightarrow> issuerID \<Rightarrow> revokedCertificate list \<Rightarrow> crlID \<Rightarrow> 64 word \<Rightarrow> int \<Rightarrow>
   err option \<times> storage" where
  "buildCRL_write env s thisIssuerId revokedCerts identifier crlNumber lifetime =
     (case fetchCertBundleByIssuerId s thisIssuerId True of
        Inl caErr \<Rightarrow>
          (if isUserError caErr then (Some (UserError ''could not fetch the CA certificate''), s)
           else (Some (InternalError ''error fetching CA certificate''), s))
      | Inr (issuer, bundle) \<Rightarrow>
          (case parseCABundle env bundle of
             Inl caErr \<Rightarrow>
               (if isUserError caErr
                then (Some (UserError ''could not fetch the CA certificate''), s)
                else (Some (InternalError ''error fetching CA certificate''), s))
           | Inr signingBundle \<Rightarrow>
               let revocationListTemplate =
                     \<lparr>RevokedCertificates = revokedCerts, Number = crlNumber,
                      ThisUpdate = Now env, NextUpdate = Now env + lifetime\<rparr> in
               (case CreateRevocationList env revocationListTemplate signingBundle of
                  None \<Rightarrow> (Some (InternalError ''error creating new CRL''), s)
                | Some crlBytes \<Rightarrow>
                    (case Storage_Put s (''crls/'' @ identifier) (Bytes crlBytes) of
                       Inl e \<Rightarrow> (Some (InternalError ''error storing CRL''), s)
                     | Inr s' \<Rightarrow> (None, s')))))"

definition buildCRL ::
  "env \<Rightarrow> backend \<Rightarrow> storage \<Rightarrow> bool \<Rightarrow> issuerID \<Rightarrow> revokedCertificate list \<Rightarrow> crlID \<Rightarrow>
   64 word \<Rightarrow> err option \<times> storage" where
  "buildCRL env b s forceNew thisIssuerId revoked identifier crlNumber =
     (case CRL env s of
        Inl e \<Rightarrow> (Some (InternalError ''error fetching CRL config information''), s)
      | Inr None \<Rightarrow>
          buildCRL_write env s thisIssuerId revoked identifier crlNumber (crlLifetime b)
      | Inr (Some crlInfo) \<Rightarrow>
          (case (if Expiry crlInfo \<noteq> ''''
                 then (case ParseDuration env (Expiry crlInfo) of
                         None \<Rightarrow> Inl (InternalError ''error parsing CRL duration'')
                       | Some crlDur \<Rightarrow> Inr crlDur)
                 else Inr (crlLifetime b)) of
             Inl e \<Rightarrow> (Some e, s)
           | Inr lifetime \<Rightarrow>
               if Disable crlInfo
               then (if \<not> forceNew then (None, s)
                     else buildCRL_write env s thisIssuerId [] identifier crlNumber lifetime)
               else buildCRL_write env s thisIssuerId revoked identifier crlNumber lifetime))"

section \<open>crl_util.go: attributing the revoked certificates\<close>

text \<open>\<^verbatim>\<open>time.Unix(sec, 0).UTC()\<close>: seconds since 1970 as an instant.\<close>

definition unixInstant :: "int \<Rightarrow> instant" where
  "unixInstant sec = (sec + 62135596800) * 1000000000"

text \<open>
  \<^verbatim>\<open>append(m[k], x)\<close> on a map of slices, an absent key reading as the empty slice.
\<close>

definition appendAt :: "('k \<rightharpoonup> 'v list) \<Rightarrow> 'k \<Rightarrow> 'v \<Rightarrow> ('k \<rightharpoonup> 'v list)" where
  "appendAt m k x = m(k \<mapsto> (case m k of None \<Rightarrow> [] | Some l \<Rightarrow> l) @ [x])"

text \<open>
  \<^verbatim>\<open>len(entry.Value) == 0\<close>: a stored value with no bytes; a JSON document has some.
\<close>

definition emptyValue :: "sval \<Rightarrow> bool" where
  "emptyValue v = (case v of Bytes bs \<Rightarrow> bs = [] | _ \<Rightarrow> False)"

text \<open>
  The loop of \<^verbatim>\<open>getRevokedCertEntries\<close> over the revoked serials. \<open>certs\<close> is
  \<^verbatim>\<open>issuerIDCertMap\<close>, kept in the order of insertion.
\<close>

fun getRevokedCertEntries_loop ::
  "env \<Rightarrow> (issuerID \<times> certificate) list \<Rightarrow> string list \<Rightarrow> revokedCertificate list \<Rightarrow>
   (issuerID \<rightharpoonup> revokedCertificate list) \<Rightarrow> storage \<Rightarrow>
   (err + revokedCertificate list \<times> (issuerID \<rightharpoonup> revokedCertificate list)) \<times> storage" where
  "getRevokedCertEntries_loop env certs [] unassignedCerts revokedCertsMap s =
     (Inr (unassignedCerts, revokedCertsMap), s)"
| "getRevokedCertEntries_loop env certs (serial # rest) unassignedCerts revokedCertsMap s =
     (case Storage_Get s (revokedPath @ serial) of
        Inl e \<Rightarrow> (Inl (InternalError ''unable to fetch revoked cert''), s)
      | Inr None \<Rightarrow> (Inl (InternalError ''revoked certificate entry is nil''), s)
      | Inr (Some revokedEntry) \<Rightarrow>
          if emptyValue revokedEntry
          then (Inl (InternalError ''found revoked serial but actual certificate is empty''), s)
          else
          (case decodeRevocationInfo revokedEntry of
             None \<Rightarrow> (Inl (InternalError ''error decoding revocation entry''), s)
           | Some revInfo \<Rightarrow>
              (case ParseCertificate env (CertificateBytes revInfo) of
                 None \<Rightarrow> (Inl (InternalError ''unable to parse stored revoked certificate''), s)
               | Some revokedCert \<Rightarrow>
                   let newRevCert =
                         \<lparr>revokedCertificate.SerialNumber = certificate.SerialNumber revokedCert,
                          revokedCertificate.RevocationTime =
                            (if RevocationTimeUTC revInfo \<noteq> 0 then RevocationTimeUTC revInfo
                             else unixInstant (revocationInfo.RevocationTime revInfo))\<rparr> in
                   if length (CertificateIssuer revInfo) > 0 \<and>
                      map_of certs (CertificateIssuer revInfo) \<noteq> None
                   then getRevokedCertEntries_loop env certs rest unassignedCerts
                          (appendAt revokedCertsMap (CertificateIssuer revInfo) newRevCert) s
                   else
                     (case List.find
                             (\<lambda>(issuerId, issuerCert).
                                RawIssuer revokedCert = RawSubject issuerCert \<and>
                                CheckSignatureFrom env revokedCert issuerCert)
                             (sort_key (\<lambda>(issuerId, issuerCert). certOrder env serial issuerId)
                                certs) of
                        None \<Rightarrow>
                          getRevokedCertEntries_loop env certs rest (unassignedCerts @ [newRevCert])
                            revokedCertsMap s
                      | Some (issuerId, issuerCert) \<Rightarrow>
                          (case Storage_Put s (revokedPath @ serial)
                                  (JRevocationInfo (revInfo\<lparr>CertificateIssuer := issuerId\<rparr>)) of
                             Inl e \<Rightarrow>
                               (Inl (PlainError
                                  ''error updating revoked certificate at existing location''), s)
                           | Inr s' \<Rightarrow>
                               getRevokedCertEntries_loop env certs rest unassignedCerts
                                 (appendAt revokedCertsMap issuerId newRevCert) s')))))"

definition getRevokedCertEntries ::
  "env \<Rightarrow> storage \<Rightarrow> (issuerID \<times> certificate) list \<Rightarrow>
   (err + revokedCertificate list \<times> (issuerID \<rightharpoonup> revokedCertificate list)) \<times> storage" where
  "getRevokedCertEntries env s issuerIDCertMap =
     (case Storage_List s revokedPath of
        Inl e \<Rightarrow> (Inl (InternalError ''error fetching list of revoked certs''), s)
      | Inr revokedSerials \<Rightarrow>
          getRevokedCertEntries_loop env issuerIDCertMap revokedSerials [] Map.empty s)"

section \<open>crl_util.go: building all CRLs\<close>

text \<open>
  The first loop of \<^verbatim>\<open>buildCRLs\<close>, over the listed issuers. \<open>certs\<close> is
  \<^verbatim>\<open>issuerIDCertMap\<close>; \<open>groups\<close> is the double map \<^verbatim>\<open>keySubjectIssuersMap\<close>,
  keyed by the pair of key identifier and subject, in the order of insertion.
  (\<^verbatim>\<open>issuerIDEntryMap\<close> is filled by the code and never read.)
\<close>

type_synonym issuerGroups = "((keyID \<times> string) \<times> issuerID list) list"

definition groupOf :: "issuerGroups \<Rightarrow> keyID \<times> string \<Rightarrow> issuerID list" where
  "groupOf groups k = (case map_of groups k of None \<Rightarrow> [] | Some l \<Rightarrow> l)"

fun buildCRLs_issuers ::
  "env \<Rightarrow> storage \<Rightarrow> issuerID list \<Rightarrow> (issuerID \<times> certificate) list \<Rightarrow> issuerGroups \<Rightarrow>
   err + (issuerID \<times> certificate) list \<times> issuerGroups" where
  "buildCRLs_issuers env s [] certs groups = Inr (certs, groups)"
| "buildCRLs_issuers env s (issuer # rest) certs groups =
     (case fetchIssuerById s issuer of
        Inl e \<Rightarrow> Inl (PlainError ''error building CRLs: unable to fetch specified issuer'')
      | Inr thisEntry \<Rightarrow>
          if length (KeyID thisEntry) = 0 then buildCRLs_issuers env s rest certs groups
          else (case GetCertificate env thisEntry of
                  Inl e \<Rightarrow>
                    Inl (PlainError ''error building CRLs: unable to parse issuer's certificate'')
                | Inr thisCert \<Rightarrow>
                    buildCRLs_issuers env s rest (AList.update issuer thisCert certs)
                      (AList.update (KeyID thisEntry, RawIssuer thisCert)
                         (groupOf groups (KeyID thisEntry, RawIssuer thisCert) @ [issuer])
                         groups)))"

text \<open>
  The loop over the issuers of one group: it gathers the revoked certificates of the group,
  prefers the default issuer as representative, and looks for the CRL identifier a member is
  mapped to. The accumulator is \<^verbatim>\<open>(revokedCerts, representative, crlIdentifier)\<close>.
\<close>

fun buildCRLs_scan ::
  "issuerID \<Rightarrow> revokedCertificate list \<Rightarrow> (issuerID \<rightharpoonup> revokedCertificate list) \<Rightarrow>
   localCRLConfigEntry \<Rightarrow> issuerID list \<Rightarrow> revokedCertificate list \<times> issuerID \<times> crlID \<Rightarrow>
   err + revokedCertificate list \<times> issuerID \<times> crlID" where
  "buildCRLs_scan defaultIssuerId unassignedCerts revokedCertsMap crlConfig [] acc = Inr acc"
| "buildCRLs_scan defaultIssuerId unassignedCerts revokedCertsMap crlConfig (issuerId # rest)
     (revokedCerts, representative, crlIdentifier) =
     (let revokedCerts1 =
            (if issuerId = defaultIssuerId \<and> length unassignedCerts > 0
             then revokedCerts @ unassignedCerts else revokedCerts);
          representative1 = (if issuerId = defaultIssuerId then issuerId else representative);
          revokedCerts2 =
            (case revokedCertsMap issuerId of
               Some thisRevoked \<Rightarrow>
                 if length thisRevoked > 0 then revokedCerts1 @ thisRevoked else revokedCerts1
             | None \<Rightarrow> revokedCerts1)
      in case IssuerIDCRLMap crlConfig issuerId of
           Some thisCRLId \<Rightarrow>
             if length thisCRLId > 0
             then (if length crlIdentifier > 0 \<and> crlIdentifier \<noteq> thisCRLId
                   then Inl (PlainError
                          ''error building CRLs: two issuers with same keys/subjects have different internal CRL IDs'')
                   else buildCRLs_scan defaultIssuerId unassignedCerts revokedCertsMap crlConfig
                          rest (revokedCerts2, representative1, thisCRLId))
             else buildCRLs_scan defaultIssuerId unassignedCerts revokedCertsMap crlConfig rest
                    (revokedCerts2, representative1, crlIdentifier)
         | None \<Rightarrow>
             buildCRLs_scan defaultIssuerId unassignedCerts revokedCertsMap crlConfig rest
               (revokedCerts2, representative1, crlIdentifier))"

text \<open>\<^verbatim>\<open>crlConfig.CRLNumberMap[id]\<close>: an absent key reads as 0.\<close>

definition crlNumberOf :: "localCRLConfigEntry \<Rightarrow> crlID \<Rightarrow> 64 word" where
  "crlNumberOf crlConfig c = (case CRLNumberMap crlConfig c of None \<Rightarrow> 0 | Some n \<Rightarrow> n)"

text \<open>
  The body of the loop over the groups, for one group \<^verbatim>\<open>issuersSet\<close>: it carries the
  CRL configuration in memory and the state.
\<close>

definition buildCRLs_group ::
  "env \<Rightarrow> backend \<Rightarrow> bool \<Rightarrow> issuerID \<Rightarrow> revokedCertificate list \<Rightarrow>
   (issuerID \<rightharpoonup> revokedCertificate list) \<Rightarrow> issuerID list \<Rightarrow> localCRLConfigEntry \<Rightarrow> world \<Rightarrow>
   (err + localCRLConfigEntry) \<times> world" where
  "buildCRLs_group env b forceNew defaultIssuerId unassignedCerts revokedCertsMap issuersSet
     crlConfig w =
     (case issuersSet of
        [] \<Rightarrow> (Inr crlConfig, w)
      | first # _ \<Rightarrow>
          (case buildCRLs_scan defaultIssuerId unassignedCerts revokedCertsMap crlConfig
                  issuersSet ([], first, '''') of
             Inl e \<Rightarrow> (Inl e, w)
           | Inr (revokedCerts, representative, crlIdentifier0) \<Rightarrow>
               (case (if length crlIdentifier0 = 0
                      then (case genCRLId w of (newId, w1) \<Rightarrow>
                              (newId,
                               crlConfig\<lparr>CRLNumberMap := (CRLNumberMap crlConfig)(newId \<mapsto> 1)\<rparr>,
                               w1))
                      else (crlIdentifier0, crlConfig, w)) of
                  (crlIdentifier, crlConfig1, w1) \<Rightarrow>
                    let crlConfig2 = crlConfig1\<lparr>IssuerIDCRLMap :=
                          foldl (\<lambda>m issuerId. m(issuerId \<mapsto> crlIdentifier))
                            (IssuerIDCRLMap crlConfig1) issuersSet\<rparr>;
                        crlNumber = crlNumberOf crlConfig2 crlIdentifier;
                        crlConfig3 = crlConfig2\<lparr>CRLNumberMap :=
                          (CRLNumberMap crlConfig2)(crlIdentifier \<mapsto> crlNumber + 1)\<rparr>
                    in (case buildCRL env b (store w1) forceNew representative revokedCerts
                               crlIdentifier crlNumber of
                          (Some e, s') \<Rightarrow>
                            (Inl (PlainError
                               ''error building CRLs: unable to build CRL for issuer''),
                             w1\<lparr>store := s'\<rparr>)
                        | (None, s') \<Rightarrow> (Inr crlConfig3, w1\<lparr>store := s'\<rparr>)))))"

fun buildCRLs_groups ::
  "env \<Rightarrow> backend \<Rightarrow> bool \<Rightarrow> issuerID \<Rightarrow> revokedCertificate list \<Rightarrow>
   (issuerID \<rightharpoonup> revokedCertificate list) \<Rightarrow> issuerID list list \<Rightarrow> localCRLConfigEntry \<Rightarrow>
   world \<Rightarrow> (err + localCRLConfigEntry) \<times> world" where
  "buildCRLs_groups env b forceNew d unassignedCerts revokedCertsMap [] crlConfig w =
     (Inr crlConfig, w)"
| "buildCRLs_groups env b forceNew d unassignedCerts revokedCertsMap (issuersSet # rest)
     crlConfig w =
     (case buildCRLs_group env b forceNew d unassignedCerts revokedCertsMap issuersSet
             crlConfig w of
        (Inl e, w') \<Rightarrow> (Inl e, w')
      | (Inr crlConfig', w') \<Rightarrow>
          buildCRLs_groups env b forceNew d unassignedCerts revokedCertsMap rest crlConfig' w')"

text \<open>The groups in the order the two nested \<^verbatim>\<open>range\<close> loops visit them.\<close>

definition groupsInOrder :: "env \<Rightarrow> issuerGroups \<Rightarrow> issuerID list list" where
  "groupsInOrder env groups = map snd (sort_key (\<lambda>(k, g). groupOrder env k) groups)"

definition buildCRLs :: "env \<Rightarrow> backend \<Rightarrow> world \<Rightarrow> bool \<Rightarrow> err option \<times> world" where
  "buildCRLs env b w forceNew =
     (case listIssuers (store w) of
        Inl e \<Rightarrow> (Some (PlainError ''error building CRL: while listing issuers''), w)
      | Inr issuers \<Rightarrow>
      case getIssuersConfig (store w) of
        Inl e \<Rightarrow>
          (Some (PlainError ''error building CRLs: while getting the default config''), w)
      | Inr config \<Rightarrow>
      case buildCRLs_issuers env (store w) issuers [] [] of
        Inl e \<Rightarrow> (Some e, w)
      | Inr (issuerIDCertMap, keySubjectIssuersMap) \<Rightarrow>
      case getLocalCRLConfig (store w) of
        Inl e \<Rightarrow>
          (Some (PlainError
             ''error building CRLs: unable to fetch cluster-local CRL configuration''), w)
      | Inr crlConfig \<Rightarrow>
      case getRevokedCertEntries env (store w) issuerIDCertMap of
        (Inl e, s1) \<Rightarrow>
          (Some (PlainError
             ''error building CRLs: unable to get revoked certificate entries''),
           w\<lparr>store := s1\<rparr>)
      | (Inr (unassignedCerts, revokedCertsMap), s1) \<Rightarrow>
      case buildCRLs_groups env b forceNew (DefaultIssuerId config) unassignedCerts
             revokedCertsMap (groupsInOrder env keySubjectIssuersMap) crlConfig
             (w\<lparr>store := s1\<rparr>) of
        (Inl e, w2) \<Rightarrow> (Some e, w2)
      | (Inr crlConfig', w2) \<Rightarrow>
          (case setLocalCRLConfig (store w2) crlConfig' of
             Inl e \<Rightarrow>
               (Some (PlainError
                  ''error building CRLs: unable to persist updated cluster-local CRL config''),
                w2)
           | Inr s3 \<Rightarrow> (None, w2\<lparr>store := s3\<rparr>)))"

section \<open>crl_util.go: the CRL builder\<close>

definition ignoreForceFlag :: bool where "ignoreForceFlag = True"
definition enforceForceFlag :: bool where "enforceForceFlag = False"

text \<open>
  \<^verbatim>\<open>_doRebuild\<close>. The deferred store of 0 runs when the function returns, whatever
  \<^verbatim>\<open>buildCRLs\<close> returned.
\<close>

definition doRebuild ::
  "env \<Rightarrow> backend \<Rightarrow> crlBuilder \<Rightarrow> world \<Rightarrow> bool \<Rightarrow> bool \<Rightarrow> err option \<times> crlBuilder \<times> world" where
  "doRebuild env b cb w forceNew ignoreFlag =
     (if forceRebuild cb = 1 \<or> ignoreFlag
      then (let myForceNew = (forceRebuild cb = 1 \<or> forceNew)
            in case buildCRLs env b w myForceNew of
                 (e, w') \<Rightarrow> (e, cb\<lparr>forceRebuild := 0\<rparr>, w'))
      else (None, cb, w))"

definition rebuildIfForced ::
  "env \<Rightarrow> backend \<Rightarrow> crlBuilder \<Rightarrow> world \<Rightarrow> err option \<times> crlBuilder \<times> world" where
  "rebuildIfForced env b cb w =
     (if forceRebuild cb = 1 then doRebuild env b cb w True enforceForceFlag
      else (None, cb, w))"

definition rebuild ::
  "env \<Rightarrow> backend \<Rightarrow> crlBuilder \<Rightarrow> world \<Rightarrow> bool \<Rightarrow> err option \<times> crlBuilder \<times> world" where
  "rebuild env b cb w forceNew = doRebuild env b cb w forceNew ignoreForceFlag"

definition requestRebuildIfActiveNode :: "backend \<Rightarrow> crlBuilder \<Rightarrow> crlBuilder" where
  "requestRebuildIfActiveNode b cb =
     (if ReplicationPerformanceStandby b \<or> ReplicationDRSecondary b then cb
      else cb\<lparr>forceRebuild := 1\<rparr>)"

section \<open>crl_util.go: revoking a certificate\<close>

text \<open>
  What \<^verbatim>\<open>revokeCert\<close> answers: no response, an error response, or the revocation time
  (the RFC 3339 form is present when the UTC instant is not the zero instant).
\<close>

datatype response = ErrorResponse string | RevocationResponse int "instant option"

text \<open>The end of \<^verbatim>\<open>revokeCert\<close>: rebuild the CRLs and answer.\<close>

definition revokeCert_rebuild ::
  "env \<Rightarrow> backend \<Rightarrow> crlBuilder \<Rightarrow> world \<Rightarrow> revocationInfo \<Rightarrow>
   (response option \<times> err option) \<times> crlBuilder \<times> world" where
  "revokeCert_rebuild env b cb w revInfo =
     (case rebuild env b cb w False of
        (Some crlErr, cb', w') \<Rightarrow>
          (if isUserError crlErr
           then ((Some (ErrorResponse ''Error during CRL building''), None), cb', w')
           else ((None, Some (PlainError ''error encountered during CRL building'')), cb', w'))
      | (None, cb', w') \<Rightarrow>
          ((Some (RevocationResponse (revocationInfo.RevocationTime revInfo)
                    (if RevocationTimeUTC revInfo \<noteq> 0 then Some (RevocationTimeUTC revInfo)
                     else None)),
            None), cb', w'))"

text \<open>A stored value as bytes for \<^verbatim>\<open>x509.ParseCertificate\<close>: a JSON document is no DER.\<close>

definition parseStoredCertificate :: "env \<Rightarrow> sval \<Rightarrow> certificate option" where
  "parseStoredCertificate env v = (case v of Bytes bs \<Rightarrow> ParseCertificate env bs | _ \<Rightarrow> None)"

definition valueBytes :: "sval \<Rightarrow> string" where
  "valueBytes v = (case v of Bytes bs \<Rightarrow> bs | _ \<Rightarrow> [])"

definition revokeCert ::
  "env \<Rightarrow> backend \<Rightarrow> crlBuilder \<Rightarrow> world \<Rightarrow> string \<Rightarrow> bool \<Rightarrow>
   (response option \<times> err option) \<times> crlBuilder \<times> world" where
  "revokeCert env b cb w serial fromLease =
     (if Tainted b then ((None, None), cb, w)
      else
      case fetchCAInfo env (store w) defaultRef of
        Inl caErr \<Rightarrow>
          (if isUserError caErr
           then ((Some (ErrorResponse ''could not fetch the CA certificate''), None), cb, w)
           else ((None, Some (PlainError ''error fetching CA certificate'')), cb, w))
      | Inr None \<Rightarrow> ((None, Some (PlainError ''CA info not found'')), cb, w)
      | Inr (Some signingBundle) \<Rightarrow>
      let colonSerial = Replace (ToLower serial) (CHR ''-'') (CHR '':'') in
      if colonSerial =
           GetHexFormatted (certificate.SerialNumber (parsedCertBundle.Certificate signingBundle))
             '':''
      then ((Some (ErrorResponse ''adding CA to CRL is not allowed''), None), cb, w)
      else
      case fetchCertBySerial env (store w) revokedPath serial of
        Inl e \<Rightarrow>
          (if isUserError e then ((Some (ErrorResponse ''error fetching the revocation entry''), None), cb, w)
           else ((None, Some e), cb, w))
      | Inr (Some revEntry) \<Rightarrow>
          (case decodeRevocationInfo revEntry of
             None \<Rightarrow>
               ((None, Some (PlainError ''error decoding existing revocation info'')), cb, w)
           | Some revInfo \<Rightarrow> revokeCert_rebuild env b cb w revInfo)
      | Inr None \<Rightarrow>
          (case fetchCertBySerial env (store w) ''certs/'' serial of
             Inl e \<Rightarrow>
               (if isUserError e
                then ((Some (ErrorResponse ''error fetching the certificate''), None), cb, w)
                else ((None, Some e), cb, w))
           | Inr None \<Rightarrow>
               (if fromLease then ((None, None), cb, w)
                else ((Some (ErrorResponse ''certificate with serial not found''), None), cb, w))
           | Inr (Some certEntry) \<Rightarrow>
               (case parseStoredCertificate env certEntry of
                  None \<Rightarrow> ((None, Some (PlainError ''error parsing certificate'')), cb, w)
                | Some cert \<Rightarrow>
                    if NotAfter cert < Now env + 2 * 1000000000 then ((None, None), cb, w)
                    else if IsCA cert \<and> fromLease then ((None, None), cb, w)
                    else
                      let revInfo =
                            \<lparr>CertificateBytes = valueBytes certEntry,
                             revocationInfo.RevocationTime =
                               Now env div 1000000000 - 62135596800,
                             RevocationTimeUTC = Now env, CertificateIssuer = ''''\<rparr> in
                      (case Storage_Put (store w) (revokedPath @ normalizeSerial env serial)
                              (JRevocationInfo revInfo) of
                         Inl e \<Rightarrow>
                           ((None, Some (PlainError
                               ''error saving revoked certificate to new location'')), cb, w)
                       | Inr s1 \<Rightarrow> revokeCert_rebuild env b cb (w\<lparr>store := s1\<rparr>) revInfo))))"

section \<open>A small environment for concrete runs\<close>

text \<open>
  A toy public-key infrastructure: one CA certificate (PEM text \<open>-BEGIN A\<close>, subject
  \<open>root\<close>, serial 1), its key in two encodings, and leaf certificates \<open>L1\<close> to \<open>L4\<close>.
  A signature checks when the issuer field names the subject of the parent; the bytes of a
  CRL spell its number and the serials on it.
\<close>

definition certA :: certificate where
  "certA = \<lparr>RawIssuer = ''root'', RawSubject = ''root'', certificate.SerialNumber = 1,
            NotAfter = 9000000000000, IsCA = True, BasicConstraintsValid = True,
            PublicKey = ''pubA''\<rparr>"

definition signerA :: signer where
  "signerA = \<lparr>Public = ''pubA'', KeyType = ''rsa''\<rparr>"

definition leafCert :: "string \<Rightarrow> nat \<Rightarrow> instant \<Rightarrow> certificate" where
  "leafCert issuerName serialNo notAfter =
     \<lparr>RawIssuer = issuerName, RawSubject = ''leaf'', certificate.SerialNumber = serialNo,
      NotAfter = notAfter, IsCA = False, BasicConstraintsValid = True, PublicKey = ''pubL''\<rparr>"

definition demoEnv :: env where
  "demoEnv =
     \<lparr>pem_Decode = (\<lambda>s. if s = ''-BEGIN A'' @ [CHR 0x0A] then Some (''A'', '''') else None),
      ParseCertificate =
        (\<lambda>bs. if bs = ''A'' then Some certA
              else if bs = ''L1'' then Some (leafCert ''root'' 10 9000000000000)
              else if bs = ''L2'' then Some (leafCert ''gone'' 11 9000000000000)
              else if bs = ''L3'' then Some (leafCert ''root'' 12 1000)
              else if bs = ''L4'' then Some (leafCert ''other'' 1 1000)
              else None),
      ParsePEMKey =
        (\<lambda>s. if s = ''KEY-A'' @ [CHR 0x0A] \<or> s = ''KEY-A (PKCS8)'' @ [CHR 0x0A]
             then Some signerA else None),
      ComparePublicKeysAndType = (\<lambda>a b. Some (a = b)),
      CheckSignatureFrom = (\<lambda>child parent. RawIssuer child = RawSubject parent),
      CreateRevocationList =
        (\<lambda>tmpl bundle.
           case parsedCertBundle.PrivateKey bundle of
             None \<Rightarrow> None
           | Some sg \<Rightarrow>
               Some (''CRL '' @
                     (if Number tmpl = 1 then ''1'' else if Number tmpl = 2 then ''2''
                      else ''n'') @ '':'' @
                     map (\<lambda>r. hexDigit (revokedCertificate.SerialNumber r))
                       (RevokedCertificates tmpl))),
      ParseDuration = (\<lambda>s. if s = ''72h'' then Some 259200000000000 else None),
      Now = 5000000000000,
      CRL = (\<lambda>s. Inr None),
      parseCABundle =
        (\<lambda>bundle. if certBundle.PrivateKey bundle = '''' then Inl (UserError ''no key'')
                  else Inr \<lparr>parsedCertBundle.Certificate = certA,
                            parsedCertBundle.PrivateKey = Some signerA\<rparr>),
      fetchCAInfo =
        (\<lambda>s ref. Inr (Some \<lparr>parsedCertBundle.Certificate = certA,
                              parsedCertBundle.PrivateKey = Some signerA\<rparr>)),
      fetchCertBySerial =
        (\<lambda>s pfx serial. Storage_Get s (pfx @ Replace (ToLower serial) (CHR '':'') (CHR ''-''))),
      normalizeSerial = (\<lambda>serial. Replace (ToLower serial) (CHR '':'') (CHR ''-'')),
      groupOrder = (\<lambda>k. 0),
      certOrder = (\<lambda>serial i. 0)\<rparr>"

definition demoBackend :: backend where
  "demoBackend = \<lparr>crlLifetime = 259200000000000, Tainted = False,
                  ReplicationPerformanceStandby = False, ReplicationDRSecondary = False\<rparr>"

definition keyA :: keyEntry where
  "keyA = \<lparr>keyEntry.ID = ''k1'', keyEntry.Name = ''first'', keyEntry.PrivateKeyType = ''rsa'',
           keyEntry.PrivateKey = ''KEY-A'' @ [CHR 0x0A]\<rparr>"

definition issuerA :: issuerEntry where
  "issuerA = \<lparr>issuerEntry.ID = ''i1'', issuerEntry.Name = ''root'', KeyID = ''k1'',
              issuerEntry.Certificate = ''-BEGIN A'' @ [CHR 0x0A], issuerEntry.CAChain = [],
              ManualChain = [], issuerEntry.SerialNumber = ''01'',
              LeafNotAfterBehavior = ErrNotAfterBehavior\<rparr>"

text \<open>
  A storage with the key, the issuer, two revocation records (\<open>L1\<close> issued by the stored
  issuer, \<open>L2\<close> by an issuer that is gone) and two expired certificates; no default issuer
  is configured.
\<close>

definition demoStore :: storage where
  "demoStore =
     \<lparr>entries =
        [(''config/key/k1'', JKey keyA),
         (''config/issuer/i1'', JIssuer issuerA),
         (''revoked/0a'',
            JRevocationInfo \<lparr>CertificateBytes = ''L1'', revocationInfo.RevocationTime = 0,
              RevocationTimeUTC = 4000000000000, CertificateIssuer = ''''\<rparr>),
         (''revoked/0b'',
            JRevocationInfo \<lparr>CertificateBytes = ''L2'', revocationInfo.RevocationTime = 0,
              RevocationTimeUTC = 4000000000001, CertificateIssuer = ''''\<rparr>),
         (''certs/0c'', Bytes ''L3''),
         (''certs/01'', Bytes ''L4'')],
      faulty = []\<rparr>"

definition demoWorld :: world where
  "demoWorld = \<lparr>store = demoStore, rand = (\<lambda>k. k), drawn = 0\<rparr>"

definition rev10 :: revokedCertificate where
  "rev10 = \<lparr>revokedCertificate.SerialNumber = 10,
            revokedCertificate.RevocationTime = 4000000000000\<rparr>"

text \<open>Variants: the CRL disabled, an expiry that does not parse, no CA to be fetched.\<close>

definition disabledEnv :: env where
  "disabledEnv = demoEnv\<lparr>CRL := (\<lambda>s. Inr (Some \<lparr>Expiry = ''72h'', Disable = True\<rparr>))\<rparr>"

definition badExpiryEnv :: env where
  "badExpiryEnv = demoEnv\<lparr>CRL := (\<lambda>s. Inr (Some \<lparr>Expiry = ''soon'', Disable = True\<rparr>))\<rparr>"

definition noCAEnv :: env where
  "noCAEnv = demoEnv\<lparr>fetchCAInfo :=
     (\<lambda>s ref. Inl (UserError ''no default issuer currently configured''))\<rparr>"

text \<open>
  A storage holding, for keys and for issuers alike, raw bytes at \<open>k1\<close> (no JSON
  document), nothing at \<open>k2\<close>, a failing read at \<open>k3\<close> and a key configuration at
  \<open>k4\<close> (a JSON document of another record type, which decodes).
\<close>

definition undecodableStore :: storage where
  "undecodableStore =
     \<lparr>entries = [(''config/key/k1'', Bytes ''not a document''),
                 (''config/issuer/k1'', Bytes ''not a document''),
                 (''config/key/k4'', JKeyConfig \<lparr>DefaultKeyId = ''k1''\<rparr>),
                 (''config/issuer/k4'', JKeyConfig \<lparr>DefaultKeyId = ''k1''\<rparr>)],
      faulty = [(OpGet, ''config/key/k3''), (OpGet, ''config/issuer/k3'')]\<rparr>"

text \<open>
  A storage with the default key \<open>k1\<close> and the default issuer \<open>i1\<close>: deleting them
  clears the pointers, deleting \<open>k2\<close> or \<open>i2\<close> does not. In the two variants the
  backend refuses the write of the configuration records, respectively the delete of the
  two entries.
\<close>

definition defaultsStore :: storage where
  "defaultsStore =
     \<lparr>entries =
        [(''config/keys'', JKeyConfig \<lparr>DefaultKeyId = ''k1''\<rparr>),
         (''config/key/k1'',
            JKey \<lparr>keyEntry.ID = ''k1'', keyEntry.Name = ''first'',
                  PrivateKeyType = ''rsa'', PrivateKey = ''KEY-1''\<rparr>),
         (''config/issuers'', JIssuerConfig \<lparr>DefaultIssuerId = ''i1''\<rparr>),
         (''config/issuer/i1'',
            JIssuer \<lparr>issuerEntry.ID = ''i1'', issuerEntry.Name = ''root'', KeyID = ''k1'',
                     Certificate = ''CERT-1'', CAChain = [], ManualChain = [],
                     SerialNumber = ''01'', LeafNotAfterBehavior = ErrNotAfterBehavior\<rparr>)],
      faulty = []\<rparr>"

definition noPutStore :: storage where
  "noPutStore =
     defaultsStore\<lparr>faulty := [(OpPut, ''config/keys''), (OpPut, ''config/issuers'')]\<rparr>"

definition noDeleteStore :: storage where
  "noDeleteStore =
     defaultsStore\<lparr>faulty := [(OpDelete, ''config/key/k1''), (OpDelete, ''config/issuer/i1'')]\<rparr>"

text \<open>An empty storage.\<close>

definition emptyWorld :: world where
  "emptyWorld = \<lparr>store = \<lparr>entries = [], faulty = []\<rparr>, rand = (\<lambda>k. k), drawn = 0\<rparr>"

section \<open>Notions used in the statements\<close>

text \<open>
  Groups of issuers that are not empty, pairwise different and pairwise disjoint: what the
  double map \<^verbatim>\<open>keySubjectIssuersMap\<close> holds after the first loop of \<^verbatim>\<open>buildCRLs\<close>.
\<close>

definition uniqueGroups :: "issuerID list list \<Rightarrow> bool" where
  "uniqueGroups G \<longleftrightarrow>
     [] \<notin> set G \<and> distinct G \<and> (\<forall>g\<in>set G. \<forall>g'\<in>set G. g \<noteq> g' \<longrightarrow> set g \<inter> set g' = {})"

text \<open>
  What a step that never writes a CRL configuration guarantees: a CRL configuration found
  at a path afterwards was there before.
\<close>

definition keepsConfigs :: "storage \<Rightarrow> storage \<Rightarrow> bool" where
  "keepsConfigs s s' \<longleftrightarrow>
     (\<forall>p c. Storage_Get s' p = Inr (Some (JLocalCRLConfig c)) \<longrightarrow>
            Storage_Get s p = Inr (Some (JLocalCRLConfig c)))"

section \<open>A storage with conflicting CRL identifiers\<close>




text \<open>
  Storages that differ by writes at the paths \<open>W\<close> only: the faults of the backend are
  the same, no entry is removed, and the entries at the other paths are the same.
\<close>

definition writesWithin :: "(string \<Rightarrow> bool) \<Rightarrow> storage \<Rightarrow> storage \<Rightarrow> bool" where
  "writesWithin W s s' \<longleftrightarrow>
     faulty s' = faulty s \<and>
     dom (map_of (entries s)) \<subseteq> dom (map_of (entries s')) \<and>
     (\<forall>p. \<not> W p \<longrightarrow> map_of (entries s') p = map_of (entries s) p)"

section \<open>Facts about the storage backend\<close>

lemma Storage_Get_Put:
  "Storage_Put s p v = Inr s' \<Longrightarrow>
   Storage_Get s' q =
     (if q = p \<and> (OpGet, p) \<notin> set (faulty s) then Inr (Some v) else Storage_Get s q)"
  by (auto simp: Storage_Put_def Storage_Get_def update_conv' split: if_splits)

lemma Storage_Get_Delete:
  "Storage_Delete s p = Inr s' \<Longrightarrow>
   Storage_Get s' q =
     (if q = p \<and> (OpGet, p) \<notin> set (faulty s) then Inr None else Storage_Get s q)"
  by (auto simp: Storage_Delete_def Storage_Get_def delete_conv' split: if_splits)


lemma Storage_Delete_faulty: "Storage_Delete s p = Inr s' \<Longrightarrow> faulty s' = faulty s"
  by (auto simp: Storage_Delete_def split: if_splits)

lemma keyPrefix_not_config [simp]:
  "keyPrefix @ x \<noteq> storageKeyConfig" "storageKeyConfig \<noteq> keyPrefix @ x"
  by (simp_all add: keyPrefix_def storageKeyConfig_def)

lemma issuerPrefix_not_config [simp]:
  "issuerPrefix @ x \<noteq> storageIssuerConfig" "storageIssuerConfig \<noteq> issuerPrefix @ x"
  by (simp_all add: issuerPrefix_def storageIssuerConfig_def)

section \<open>Fetching by identifier\<close>

lemma decodeKeyEntry_None: "decodeKeyEntry v = None \<longleftrightarrow> (\<exists>bs. v = Bytes bs)"
  by (cases v) simp_all

lemma decodeIssuerEntry_None: "decodeIssuerEntry v = None \<longleftrightarrow> (\<exists>bs. v = Bytes bs)"
  by (cases v) simp_all

text \<open>
  C8 (as amended). \<^verbatim>\<open>fetchKeyById\<close> and \<^verbatim>\<open>fetchIssuerById\<close> fail with an
  \<open>InternalError\<close> when the identifier is the empty string, with a \<open>UserError\<close> (the
  entry does not exist) when the identifier is not empty and no record is stored at it, and
  with an \<open>InternalError\<close> when the read of the storage fails or the stored value does not
  decode, which is the case of a value that is no JSON document only; a stored value that
  decodes is returned as the entry.
\<close>

theorem fetchById_errors:
  "(id' = '''' \<longrightarrow>
      fetchKeyById s id' = Inl (InternalError ''unable to fetch pki key: empty key identifier'') \<and>
      fetchIssuerById s id' =
        Inl (InternalError ''unable to fetch pki issuer: empty issuer identifier'')) \<and>
   (id' \<noteq> '''' \<and> Storage_Get s (keyPrefix @ id') = Inr None \<longrightarrow>
      fetchKeyById s id' = Inl (UserError ''pki key id does not exist'')) \<and>
   (id' \<noteq> '''' \<and> Storage_Get s (issuerPrefix @ id') = Inr None \<longrightarrow>
      fetchIssuerById s id' = Inl (UserError ''pki issuer id does not exist'')) \<and>
   (id' \<noteq> '''' \<and> Storage_Get s (keyPrefix @ id') = Inr (Some v) \<and> decodeKeyEntry v = None \<longrightarrow>
      fetchKeyById s id' = Inl (InternalError ''unable to decode pki key'')) \<and>
   (id' \<noteq> '''' \<and> Storage_Get s (issuerPrefix @ id') = Inr (Some v) \<and>
    decodeIssuerEntry v = None \<longrightarrow>
      fetchIssuerById s id' = Inl (InternalError ''unable to decode pki issuer'')) \<and>
   (id' \<noteq> '''' \<and> Storage_Get s (keyPrefix @ id') = Inr (Some v) \<and>
    decodeKeyEntry v = Some key \<longrightarrow>
      fetchKeyById s id' = Inr key) \<and>
   (id' \<noteq> '''' \<and> Storage_Get s (issuerPrefix @ id') = Inr (Some v) \<and>
    decodeIssuerEntry v = Some issuer \<longrightarrow>
      fetchIssuerById s id' = Inr issuer) \<and>
   (id' \<noteq> '''' \<and> Storage_Get s (keyPrefix @ id') = Inl e \<longrightarrow>
      fetchKeyById s id' = Inl (InternalError ''unable to fetch pki key'')) \<and>
   (id' \<noteq> '''' \<and> Storage_Get s (issuerPrefix @ id') = Inl e \<longrightarrow>
      fetchIssuerById s id' = Inl (InternalError ''unable to fetch pki issuer''))"
  by (simp add: fetchKeyById_def fetchIssuerById_def)

theorem fetchById_errors_witness:
  "fetchKeyById undecodableStore ''k2'' = Inl (UserError ''pki key id does not exist'') \<and>
   fetchIssuerById undecodableStore ''k2'' = Inl (UserError ''pki issuer id does not exist'') \<and>
   fetchKeyById undecodableStore ''k1'' = Inl (InternalError ''unable to decode pki key'') \<and>
   fetchIssuerById undecodableStore ''k1'' = Inl (InternalError ''unable to decode pki issuer'') \<and>
   fetchKeyById undecodableStore ''k3'' = Inl (InternalError ''unable to fetch pki key'') \<and>
   fetchIssuerById undecodableStore ''k3'' = Inl (InternalError ''unable to fetch pki issuer'') \<and>
   fetchKeyById undecodableStore '''' =
     Inl (InternalError ''unable to fetch pki key: empty key identifier'') \<and>
   fetchIssuerById undecodableStore '''' =
     Inl (InternalError ''unable to fetch pki issuer: empty issuer identifier'') \<and>
   fetchKeyById undecodableStore ''k4'' =
     Inr \<lparr>keyEntry.ID = '''', keyEntry.Name = '''', PrivateKeyType = '''', PrivateKey = ''''\<rparr> \<and>
   fetchIssuerById undecodableStore ''k4'' =
     Inr \<lparr>issuerEntry.ID = '''', issuerEntry.Name = '''', KeyID = '''',
          issuerEntry.Certificate = '''', CAChain = [], ManualChain = [],
          issuerEntry.SerialNumber = '''', LeafNotAfterBehavior = ErrNotAfterBehavior\<rparr>"
  using fetchById_errors [of "''k2''" undecodableStore "Bytes ''not a document''"
          "\<lparr>keyEntry.ID = '''', keyEntry.Name = '''', PrivateKeyType = '''', PrivateKey = ''''\<rparr>"
          "\<lparr>issuerEntry.ID = '''', issuerEntry.Name = '''', KeyID = '''',
            issuerEntry.Certificate = '''', CAChain = [], ManualChain = [],
            issuerEntry.SerialNumber = '''', LeafNotAfterBehavior = ErrNotAfterBehavior\<rparr>"
          "PlainError ''storage: get failed''"]
        fetchById_errors [of "''k1''" undecodableStore "Bytes ''not a document''"
          "\<lparr>keyEntry.ID = '''', keyEntry.Name = '''', PrivateKeyType = '''', PrivateKey = ''''\<rparr>"
          "\<lparr>issuerEntry.ID = '''', issuerEntry.Name = '''', KeyID = '''',
            issuerEntry.Certificate = '''', CAChain = [], ManualChain = [],
            issuerEntry.SerialNumber = '''', LeafNotAfterBehavior = ErrNotAfterBehavior\<rparr>"
          "PlainError ''storage: get failed''"]
        fetchById_errors [of "''k3''" undecodableStore "Bytes ''not a document''"
          "\<lparr>keyEntry.ID = '''', keyEntry.Name = '''', PrivateKeyType = '''', PrivateKey = ''''\<rparr>"
          "\<lparr>issuerEntry.ID = '''', issuerEntry.Name = '''', KeyID = '''',
            issuerEntry.Certificate = '''', CAChain = [], ManualChain = [],
            issuerEntry.SerialNumber = '''', LeafNotAfterBehavior = ErrNotAfterBehavior\<rparr>"
          "PlainError ''storage: get failed''"]
        fetchById_errors [of "''''" undecodableStore "Bytes ''not a document''"
          "\<lparr>keyEntry.ID = '''', keyEntry.Name = '''', PrivateKeyType = '''', PrivateKey = ''''\<rparr>"
          "\<lparr>issuerEntry.ID = '''', issuerEntry.Name = '''', KeyID = '''',
            issuerEntry.Certificate = '''', CAChain = [], ManualChain = [],
            issuerEntry.SerialNumber = '''', LeafNotAfterBehavior = ErrNotAfterBehavior\<rparr>"
          "PlainError ''storage: get failed''"]
        fetchById_errors [of "''k4''" undecodableStore "JKeyConfig \<lparr>DefaultKeyId = ''k1''\<rparr>"
          "\<lparr>keyEntry.ID = '''', keyEntry.Name = '''', PrivateKeyType = '''', PrivateKey = ''''\<rparr>"
          "\<lparr>issuerEntry.ID = '''', issuerEntry.Name = '''', KeyID = '''',
            issuerEntry.Certificate = '''', CAChain = [], ManualChain = [],
            issuerEntry.SerialNumber = '''', LeafNotAfterBehavior = ErrNotAfterBehavior\<rparr>"
          "PlainError ''storage: get failed''"]
  by (simp add: undecodableStore_def Storage_Get_def keyPrefix_def issuerPrefix_def)

text \<open>
  The claim as written asks for a not-found (user) error on the empty identifier; the code
  answers with an internal error, which the type switch does not take for a user error.
\<close>

theorem fetchById_empty_counterexample:
  "fetchKeyById \<lparr>entries = [], faulty = []\<rparr> '''' =
     Inl (InternalError ''unable to fetch pki key: empty key identifier'') \<and>
   fetchIssuerById \<lparr>entries = [], faulty = []\<rparr> '''' =
     Inl (InternalError ''unable to fetch pki issuer: empty issuer identifier'') \<and>
   \<not> isUserError (InternalError ''unable to fetch pki key: empty key identifier'') \<and>
   \<not> isUserError (InternalError ''unable to fetch pki issuer: empty issuer identifier'')"
  by (simp add: fetchKeyById_def fetchIssuerById_def)

section \<open>Deleting and the default pointer\<close>

text \<open>
  C7. With the configuration record read as \<open>kc\<close> (\<open>ic\<close> for issuers).
  When \<open>id'\<close> is the configured default, \<^verbatim>\<open>deleteKey\<close> (\<^verbatim>\<open>deleteIssuer\<close>) reports
  \<open>wasDefault = True\<close> and first writes the configuration record with the empty default
  pointer: if this write fails, its error is returned and nothing is deleted, the storage
  is as before; otherwise the record reads with the empty pointer in the storage \<open>s1\<close>
  that the write leaves, in which the entry is still as it was, and the delete is applied
  to \<open>s1\<close>: if the delete fails, its error is returned and \<open>s1\<close>, with the pointer
  cleared, is what is left; if it succeeds no error is returned and the record still reads
  with the empty pointer.
  When \<open>id'\<close> is not the configured default, \<open>wasDefault = False\<close> is reported, the
  configuration record is as before, and the delete is applied to the storage as it was.
  When the configuration record cannot be read nothing is written or deleted.
\<close>

theorem delete_clears_default:
  "(getKeysConfig s = Inr kc \<longrightarrow>
      (case deleteKey s id' of (wasDefault, e, s') \<Rightarrow>
         (DefaultKeyId kc = id' \<longrightarrow>
            wasDefault \<and>
            (case setKeysConfig s (kc\<lparr>DefaultKeyId := ''''\<rparr>) of
               Inl putErr \<Rightarrow> e = Some putErr \<and> s' = s
             | Inr s1 \<Rightarrow>
                 getKeysConfig s1 = Inr (kc\<lparr>DefaultKeyId := ''''\<rparr>) \<and>
                 Storage_Get s1 (keyPrefix @ id') = Storage_Get s (keyPrefix @ id') \<and>
                 (case Storage_Delete s1 (keyPrefix @ id') of
                    Inl delErr \<Rightarrow> e = Some delErr \<and> s' = s1
                  | Inr s2 \<Rightarrow>
                      e = None \<and> s' = s2 \<and>
                      getKeysConfig s2 = Inr (kc\<lparr>DefaultKeyId := ''''\<rparr>)))) \<and>
         (DefaultKeyId kc \<noteq> id' \<longrightarrow>
            \<not> wasDefault \<and>
            Storage_Get s' storageKeyConfig = Storage_Get s storageKeyConfig \<and>
            (case Storage_Delete s (keyPrefix @ id') of
               Inl delErr \<Rightarrow> e = Some delErr \<and> s' = s
             | Inr s2 \<Rightarrow> e = None \<and> s' = s2)))) \<and>
   (getKeysConfig s = Inl getErr \<longrightarrow> deleteKey s id' = (False, Some getErr, s)) \<and>
   (getIssuersConfig s = Inr ic \<longrightarrow>
      (case deleteIssuer s id' of (wasDefault, e, s') \<Rightarrow>
         (DefaultIssuerId ic = id' \<longrightarrow>
            wasDefault \<and>
            (case setIssuersConfig s (ic\<lparr>DefaultIssuerId := ''''\<rparr>) of
               Inl putErr \<Rightarrow> e = Some putErr \<and> s' = s
             | Inr s1 \<Rightarrow>
                 getIssuersConfig s1 = Inr (ic\<lparr>DefaultIssuerId := ''''\<rparr>) \<and>
                 Storage_Get s1 (issuerPrefix @ id') = Storage_Get s (issuerPrefix @ id') \<and>
                 (case Storage_Delete s1 (issuerPrefix @ id') of
                    Inl delErr \<Rightarrow> e = Some delErr \<and> s' = s1
                  | Inr s2 \<Rightarrow>
                      e = None \<and> s' = s2 \<and>
                      getIssuersConfig s2 = Inr (ic\<lparr>DefaultIssuerId := ''''\<rparr>)))) \<and>
         (DefaultIssuerId ic \<noteq> id' \<longrightarrow>
            \<not> wasDefault \<and>
            Storage_Get s' storageIssuerConfig = Storage_Get s storageIssuerConfig \<and>
            (case Storage_Delete s (issuerPrefix @ id') of
               Inl delErr \<Rightarrow> e = Some delErr \<and> s' = s
             | Inr s2 \<Rightarrow> e = None \<and> s' = s2)))) \<and>
   (getIssuersConfig s = Inl getErr \<longrightarrow> deleteIssuer s id' = (False, Some getErr, s))"
proof -
  have k: "getKeysConfig s = Inr kc \<Longrightarrow>
      (case deleteKey s id' of (wasDefault, e, s') \<Rightarrow>
         (DefaultKeyId kc = id' \<longrightarrow>
            wasDefault \<and>
            (case setKeysConfig s (kc\<lparr>DefaultKeyId := ''''\<rparr>) of
               Inl putErr \<Rightarrow> e = Some putErr \<and> s' = s
             | Inr s1 \<Rightarrow>
                 getKeysConfig s1 = Inr (kc\<lparr>DefaultKeyId := ''''\<rparr>) \<and>
                 Storage_Get s1 (keyPrefix @ id') = Storage_Get s (keyPrefix @ id') \<and>
                 (case Storage_Delete s1 (keyPrefix @ id') of
                    Inl delErr \<Rightarrow> e = Some delErr \<and> s' = s1
                  | Inr s2 \<Rightarrow>
                      e = None \<and> s' = s2 \<and>
                      getKeysConfig s2 = Inr (kc\<lparr>DefaultKeyId := ''''\<rparr>)))) \<and>
         (DefaultKeyId kc \<noteq> id' \<longrightarrow>
            \<not> wasDefault \<and>
            Storage_Get s' storageKeyConfig = Storage_Get s storageKeyConfig \<and>
            (case Storage_Delete s (keyPrefix @ id') of
               Inl delErr \<Rightarrow> e = Some delErr \<and> s' = s
             | Inr s2 \<Rightarrow> e = None \<and> s' = s2)))"
  proof -
    assume a: "getKeysConfig s = Inr kc"
    then have "(OpGet, storageKeyConfig) \<notin> set (faulty s)"
      by (auto simp: getKeysConfig_def Storage_Get_def split: if_splits)
    with a show ?thesis
      by (auto simp: deleteKey_def setKeysConfig_def getKeysConfig_def
            Storage_Get_Put Storage_Get_Delete split: sum.splits option.splits if_splits)
  qed
  have i: "getIssuersConfig s = Inr ic \<Longrightarrow>
      (case deleteIssuer s id' of (wasDefault, e, s') \<Rightarrow>
         (DefaultIssuerId ic = id' \<longrightarrow>
            wasDefault \<and>
            (case setIssuersConfig s (ic\<lparr>DefaultIssuerId := ''''\<rparr>) of
               Inl putErr \<Rightarrow> e = Some putErr \<and> s' = s
             | Inr s1 \<Rightarrow>
                 getIssuersConfig s1 = Inr (ic\<lparr>DefaultIssuerId := ''''\<rparr>) \<and>
                 Storage_Get s1 (issuerPrefix @ id') = Storage_Get s (issuerPrefix @ id') \<and>
                 (case Storage_Delete s1 (issuerPrefix @ id') of
                    Inl delErr \<Rightarrow> e = Some delErr \<and> s' = s1
                  | Inr s2 \<Rightarrow>
                      e = None \<and> s' = s2 \<and>
                      getIssuersConfig s2 = Inr (ic\<lparr>DefaultIssuerId := ''''\<rparr>)))) \<and>
         (DefaultIssuerId ic \<noteq> id' \<longrightarrow>
            \<not> wasDefault \<and>
            Storage_Get s' storageIssuerConfig = Storage_Get s storageIssuerConfig \<and>
            (case Storage_Delete s (issuerPrefix @ id') of
               Inl delErr \<Rightarrow> e = Some delErr \<and> s' = s
             | Inr s2 \<Rightarrow> e = None \<and> s' = s2)))"
  proof -
    assume a: "getIssuersConfig s = Inr ic"
    then have "(OpGet, storageIssuerConfig) \<notin> set (faulty s)"
      by (auto simp: getIssuersConfig_def Storage_Get_def split: if_splits)
    with a show ?thesis
      by (auto simp: deleteIssuer_def setIssuersConfig_def getIssuersConfig_def
            Storage_Get_Put Storage_Get_Delete split: sum.splits option.splits if_splits)
  qed
  have g: "getKeysConfig s = Inl getErr \<Longrightarrow> deleteKey s id' = (False, Some getErr, s)"
    "getIssuersConfig s = Inl getErr \<Longrightarrow> deleteIssuer s id' = (False, Some getErr, s)"
    by (simp_all add: deleteKey_def deleteIssuer_def)
  from k i g show ?thesis by blast
qed

theorem delete_clears_default_witness:
  "fst (deleteKey defaultsStore ''k1'') \<and>
   fst (snd (deleteKey defaultsStore ''k1'')) = None \<and>
   getKeysConfig (snd (snd (deleteKey defaultsStore ''k1''))) = Inr \<lparr>DefaultKeyId = ''''\<rparr> \<and>
   \<not> fst (deleteKey defaultsStore ''k2'') \<and>
   Storage_Get (snd (snd (deleteKey defaultsStore ''k2''))) storageKeyConfig =
     Storage_Get defaultsStore storageKeyConfig \<and>
   deleteKey noPutStore ''k1'' = (True, Some (PlainError ''storage: put failed''), noPutStore) \<and>
   fst (deleteKey noDeleteStore ''k1'') \<and>
   fst (snd (deleteKey noDeleteStore ''k1'')) = Some (PlainError ''storage: delete failed'') \<and>
   getKeysConfig (snd (snd (deleteKey noDeleteStore ''k1''))) = Inr \<lparr>DefaultKeyId = ''''\<rparr> \<and>
   Storage_Get (snd (snd (deleteKey noDeleteStore ''k1''))) (keyPrefix @ ''k1'') =
     Storage_Get noDeleteStore (keyPrefix @ ''k1'') \<and>
   fst (deleteIssuer defaultsStore ''i1'') \<and>
   fst (snd (deleteIssuer defaultsStore ''i1'')) = None \<and>
   getIssuersConfig (snd (snd (deleteIssuer defaultsStore ''i1''))) =
     Inr \<lparr>DefaultIssuerId = ''''\<rparr> \<and>
   \<not> fst (deleteIssuer defaultsStore ''i2'') \<and>
   deleteIssuer noPutStore ''i1'' =
     (True, Some (PlainError ''storage: put failed''), noPutStore) \<and>
   fst (deleteIssuer noDeleteStore ''i1'') \<and>
   fst (snd (deleteIssuer noDeleteStore ''i1'')) = Some (PlainError ''storage: delete failed'') \<and>
   getIssuersConfig (snd (snd (deleteIssuer noDeleteStore ''i1''))) =
     Inr \<lparr>DefaultIssuerId = ''''\<rparr> \<and>
   Storage_Get (snd (snd (deleteIssuer noDeleteStore ''i1''))) (issuerPrefix @ ''i1'') =
     Storage_Get noDeleteStore (issuerPrefix @ ''i1'')"
proof -
  note defs = getKeysConfig_def getIssuersConfig_def setKeysConfig_def setIssuersConfig_def
    Storage_Get_def Storage_Put_def Storage_Delete_def defaultsStore_def noPutStore_def
    noDeleteStore_def storageKeyConfig_def storageIssuerConfig_def keyPrefix_def
    issuerPrefix_def
  have k1: "fst (deleteKey defaultsStore ''k1'') \<and>
      fst (snd (deleteKey defaultsStore ''k1'')) = None \<and>
      getKeysConfig (snd (snd (deleteKey defaultsStore ''k1''))) = Inr \<lparr>DefaultKeyId = ''''\<rparr>"
    using delete_clears_default [of defaultsStore "\<lparr>DefaultKeyId = ''k1''\<rparr>" "''k1''"]
    by (cases "deleteKey defaultsStore ''k1''") (simp add: defs)
  have k2: "\<not> fst (deleteKey defaultsStore ''k2'') \<and>
      Storage_Get (snd (snd (deleteKey defaultsStore ''k2''))) storageKeyConfig =
        Storage_Get defaultsStore storageKeyConfig"
    using delete_clears_default [of defaultsStore "\<lparr>DefaultKeyId = ''k1''\<rparr>" "''k2''"]
    by (cases "deleteKey defaultsStore ''k2''") (simp add: defs)
  have k3: "deleteKey noPutStore ''k1'' =
      (True, Some (PlainError ''storage: put failed''), noPutStore)"
    using delete_clears_default [of noPutStore "\<lparr>DefaultKeyId = ''k1''\<rparr>" "''k1''"]
    by (cases "deleteKey noPutStore ''k1''") (simp add: defs)
  have k4: "fst (deleteKey noDeleteStore ''k1'') \<and>
      fst (snd (deleteKey noDeleteStore ''k1'')) = Some (PlainError ''storage: delete failed'') \<and>
      getKeysConfig (snd (snd (deleteKey noDeleteStore ''k1''))) =
        Inr \<lparr>DefaultKeyId = ''''\<rparr> \<and>
      Storage_Get (snd (snd (deleteKey noDeleteStore ''k1''))) (keyPrefix @ ''k1'') =
        Storage_Get noDeleteStore (keyPrefix @ ''k1'')"
    using delete_clears_default [of noDeleteStore "\<lparr>DefaultKeyId = ''k1''\<rparr>" "''k1''"]
    by (cases "deleteKey noDeleteStore ''k1''") (simp add: defs)
  have i1: "fst (deleteIssuer defaultsStore ''i1'') \<and>
      fst (snd (deleteIssuer defaultsStore ''i1'')) = None \<and>
      getIssuersConfig (snd (snd (deleteIssuer defaultsStore ''i1''))) =
        Inr \<lparr>DefaultIssuerId = ''''\<rparr>"
    using delete_clears_default [of defaultsStore _ "''i1''" _ "\<lparr>DefaultIssuerId = ''i1''\<rparr>"]
    by (cases "deleteIssuer defaultsStore ''i1''") (simp add: defs)
  have i2: "\<not> fst (deleteIssuer defaultsStore ''i2'')"
    using delete_clears_default [of defaultsStore _ "''i2''" _ "\<lparr>DefaultIssuerId = ''i1''\<rparr>"]
    by (cases "deleteIssuer defaultsStore ''i2''") (simp add: defs)
  have i3: "deleteIssuer noPutStore ''i1'' =
      (True, Some (PlainError ''storage: put failed''), noPutStore)"
    using delete_clears_default [of noPutStore _ "''i1''" _ "\<lparr>DefaultIssuerId = ''i1''\<rparr>"]
    by (cases "deleteIssuer noPutStore ''i1''") (simp add: defs)
  have i4: "fst (deleteIssuer noDeleteStore ''i1'') \<and>
      fst (snd (deleteIssuer noDeleteStore ''i1'')) =
        Some (PlainError ''storage: delete failed'') \<and>
      getIssuersConfig (snd (snd (deleteIssuer noDeleteStore ''i1''))) =
        Inr \<lparr>DefaultIssuerId = ''''\<rparr> \<and>
      Storage_Get (snd (snd (deleteIssuer noDeleteStore ''i1''))) (issuerPrefix @ ''i1'') =
        Storage_Get noDeleteStore (issuerPrefix @ ''i1'')"
    using delete_clears_default [of noDeleteStore _ "''i1''" _ "\<lparr>DefaultIssuerId = ''i1''\<rparr>"]
    by (cases "deleteIssuer noDeleteStore ''i1''") (simp add: defs)
  from k1 k2 k3 k4 i1 i2 i3 i4 show ?thesis by blast
qed

section \<open>Facts about the small environment\<close>

lemma demoEnv_sel [simp]:
  "pem_Decode demoEnv = (\<lambda>s. if s = ''-BEGIN A'' @ [CHR 0x0A] then Some (''A'', '''') else None)"
  "ParseCertificate demoEnv =
        (\<lambda>bs. if bs = ''A'' then Some certA
              else if bs = ''L1'' then Some (leafCert ''root'' 10 9000000000000)
              else if bs = ''L2'' then Some (leafCert ''gone'' 11 9000000000000)
              else if bs = ''L3'' then Some (leafCert ''root'' 12 1000)
              else if bs = ''L4'' then Some (leafCert ''other'' 1 1000)
              else None)"
  "ParsePEMKey demoEnv =
        (\<lambda>s. if s = ''KEY-A'' @ [CHR 0x0A] \<or> s = ''KEY-A (PKCS8)'' @ [CHR 0x0A]
             then Some signerA else None)"
  "ComparePublicKeysAndType demoEnv = (\<lambda>a b. Some (a = b))"
  "CheckSignatureFrom demoEnv = (\<lambda>child parent. RawIssuer child = RawSubject parent)"
  "CreateRevocationList demoEnv =
        (\<lambda>tmpl bundle.
           case parsedCertBundle.PrivateKey bundle of
             None \<Rightarrow> None
           | Some sg \<Rightarrow>
               Some (''CRL '' @
                     (if Number tmpl = 1 then ''1'' else if Number tmpl = 2 then ''2''
                      else ''n'') @ '':'' @
                     map (\<lambda>r. hexDigit (revokedCertificate.SerialNumber r))
                       (RevokedCertificates tmpl)))"
  "ParseDuration demoEnv = (\<lambda>s. if s = ''72h'' then Some 259200000000000 else None)"
  "Now demoEnv = 5000000000000"
  "CRL demoEnv = (\<lambda>s. Inr None)"
  "parseCABundle demoEnv =
        (\<lambda>bundle. if certBundle.PrivateKey bundle = '''' then Inl (UserError ''no key'')
                  else Inr \<lparr>parsedCertBundle.Certificate = certA,
                            parsedCertBundle.PrivateKey = Some signerA\<rparr>)"
  "fetchCAInfo demoEnv =
        (\<lambda>s ref. Inr (Some \<lparr>parsedCertBundle.Certificate = certA,
                              parsedCertBundle.PrivateKey = Some signerA\<rparr>))"
  "fetchCertBySerial demoEnv =
        (\<lambda>s pfx serial. Storage_Get s (pfx @ Replace (ToLower serial) (CHR '':'') (CHR ''-'')))"
  "normalizeSerial demoEnv = (\<lambda>serial. Replace (ToLower serial) (CHR '':'') (CHR ''-''))"
  "groupOrder demoEnv = (\<lambda>k. 0)"
  "certOrder demoEnv = (\<lambda>serial i. 0)"
  by (simp_all add: demoEnv_def)

lemma fetch_i1: "fetchIssuerById demoStore ''i1'' = Inr issuerA"
  by (simp add: fetchIssuerById_def Storage_Get_def demoStore_def issuerPrefix_def)

lemma fetch_k1: "fetchKeyById demoStore ''k1'' = Inr keyA"
  by (simp add: fetchKeyById_def Storage_Get_def demoStore_def keyPrefix_def)

lemma bundle_i1:
  "fetchCertBundleByIssuerId demoStore ''i1'' True =
     Inr (issuerA, \<lparr>certBundle.PrivateKeyType = ''rsa'',
                     certBundle.Certificate = ''-BEGIN A'' @ [CHR 0x0A],
                     certBundle.CAChain = [], certBundle.PrivateKey = ''KEY-A'' @ [CHR 0x0A],
                     certBundle.SerialNumber = ''01''\<rparr>)"
  by (simp add: fetchCertBundleByIssuerId_def fetch_i1 fetch_k1 issuerA_def keyA_def)

lemma demoStore_faulty [simp]: "faulty demoStore = []"
  by (simp add: demoStore_def)

section \<open>The scheduling of rebuilds\<close>

text \<open>
  C2. \<^verbatim>\<open>rebuild(forceNew)\<close> runs \<^verbatim>\<open>buildCRLs\<close> with the force flag
  (pending or \<^verbatim>\<open>forceNew\<close>), where pending means \<^verbatim>\<open>forceRebuild == 1\<close>, and leaves
  the flag at 0 whatever it was and whatever the build returned. \<^verbatim>\<open>rebuildIfForced\<close> runs
  the build (forced) when the flag is pending and then leaves it at 0; otherwise it does
  nothing, and in both cases the flag is not pending afterwards.
\<close>

theorem rebuild_runs_and_clears:
  "rebuild env b cb w forceNew =
     (case buildCRLs env b w (forceRebuild cb = 1 \<or> forceNew) of
        (e, w') \<Rightarrow> (e, cb\<lparr>forceRebuild := 0\<rparr>, w')) \<and>
   forceRebuild (fst (snd (rebuild env b cb w forceNew))) = 0 \<and>
   rebuildIfForced env b cb w =
     (if forceRebuild cb = 1
      then (case buildCRLs env b w True of (e, w') \<Rightarrow> (e, cb\<lparr>forceRebuild := 0\<rparr>, w'))
      else (None, cb, w)) \<and>
   forceRebuild (fst (snd (rebuildIfForced env b cb w))) \<noteq> 1"
  by (simp add: rebuild_def rebuildIfForced_def doRebuild_def ignoreForceFlag_def
        enforceForceFlag_def split: prod.splits)

section \<open>Building one CRL\<close>

lemma buildCRL_write_result:
  "buildCRL_write env s thisIssuerId revokedCerts identifier crlNumber lifetime = (e, s') \<Longrightarrow>
   (e = None \<longrightarrow>
      (\<exists>issuer bundle signingBundle crlBytes.
         fetchCertBundleByIssuerId s thisIssuerId True = Inr (issuer, bundle) \<and>
         parseCABundle env bundle = Inr signingBundle \<and>
         CreateRevocationList env
           \<lparr>RevokedCertificates = revokedCerts, Number = crlNumber, ThisUpdate = Now env,
            NextUpdate = Now env + lifetime\<rparr> signingBundle = Some crlBytes \<and>
         Storage_Put s (''crls/'' @ identifier) (Bytes crlBytes) = Inr s')) \<and>
   (e \<noteq> None \<longrightarrow> s' = s)"
  by (auto simp: buildCRL_write_def Let_def split: sum.splits option.splits if_splits prod.splits)

text \<open>
  C3 (as amended). Let the CRL configuration be read, with an expiry that is empty or parses
  as a duration. If it has the disabled flag set and the force flag is false,
  \<^verbatim>\<open>buildCRL\<close> returns no error and leaves the storage as it was. In the other cases,
  whenever \<^verbatim>\<open>buildCRL\<close> returns no error, the storage it leaves is the storage with, at
  \<^verbatim>\<open>crls/<identifier>\<close>, the bytes \<^verbatim>\<open>x509.CreateRevocationList\<close> made with the
  signing bundle of the issuer from a template whose number is \<^verbatim>\<open>crlNumber\<close> and whose
  list of revoked certificates is empty if the disabled flag is set (and the force flag true)
  and exactly the list passed in otherwise. When it returns an error it has written nothing.
\<close>

theorem buildCRL_disabled_and_forced:
  assumes "CRL env s = Inr crlInfo"
    and "\<forall>ci. crlInfo = Some ci \<and> Expiry ci \<noteq> '''' \<longrightarrow> ParseDuration env (Expiry ci) \<noteq> None"
    and "buildCRL env b s forceNew thisIssuerId revoked identifier crlNumber = (e, s')"
  shows "let disabled = (case crlInfo of None \<Rightarrow> False | Some ci \<Rightarrow> Disable ci) in
     (disabled \<and> \<not> forceNew \<longrightarrow> e = None \<and> s' = s) \<and>
     (e = None \<and> \<not> (disabled \<and> \<not> forceNew) \<longrightarrow>
        (\<exists>issuer bundle signingBundle tmpl crlBytes.
           fetchCertBundleByIssuerId s thisIssuerId True = Inr (issuer, bundle) \<and>
           parseCABundle env bundle = Inr signingBundle \<and>
           CreateRevocationList env tmpl signingBundle = Some crlBytes \<and>
           RevokedCertificates tmpl = (if disabled then [] else revoked) \<and>
           Number tmpl = crlNumber \<and>
           Storage_Put s (''crls/'' @ identifier) (Bytes crlBytes) = Inr s')) \<and>
     (e \<noteq> None \<longrightarrow> s' = s)"
proof (cases crlInfo)
  case None
  with assms
  have w: "buildCRL_write env s thisIssuerId revoked identifier crlNumber (crlLifetime b) =
             (e, s')"
    by (simp add: buildCRL_def)
  from buildCRL_write_result [OF w] None show ?thesis
    by (simp add: Let_def) force
next
  case (Some ci)
  show ?thesis
  proof (cases "Disable ci \<and> \<not> forceNew")
    case True
    with assms Some show ?thesis
      by (auto simp: buildCRL_def Let_def split: option.splits if_splits)
  next
    case False
    with assms Some obtain lifetime where
      w: "buildCRL_write env s thisIssuerId (if Disable ci then [] else revoked) identifier
            crlNumber lifetime = (e, s')"
      by (auto simp: buildCRL_def Let_def split: option.splits if_splits)
    from buildCRL_write_result [OF w] Some False show ?thesis
      by (simp add: Let_def) force
  qed
qed

text \<open>
  The three cases on the small storage: disabled and not forced, disabled and forced (the
  CRL written is empty although \<open>rev10\<close> was passed), and not disabled.
\<close>

theorem buildCRL_disabled_and_forced_witness:
  "buildCRL disabledEnv demoBackend demoStore False ''i1'' [rev10] ''c1'' 1 = (None, demoStore) \<and>
   buildCRL disabledEnv demoBackend demoStore True ''i1'' [rev10] ''c1'' 1 =
     (None, demoStore\<lparr>entries :=
        AList.update ''crls/c1'' (Bytes ''CRL 1:'') (entries demoStore)\<rparr>) \<and>
   buildCRL demoEnv demoBackend demoStore False ''i1'' [rev10] ''c1'' 1 =
     (None, demoStore\<lparr>entries :=
        AList.update ''crls/c1'' (Bytes ''CRL 1:a'') (entries demoStore)\<rparr>) \<and>
   (\<exists>issuer bundle signingBundle tmpl crlBytes.
      fetchCertBundleByIssuerId demoStore ''i1'' True = Inr (issuer, bundle) \<and>
      parseCABundle disabledEnv bundle = Inr signingBundle \<and>
      CreateRevocationList disabledEnv tmpl signingBundle = Some crlBytes \<and>
      RevokedCertificates tmpl = [] \<and> Number tmpl = 1 \<and>
      Storage_Put demoStore ''crls/c1'' (Bytes crlBytes) =
        Inr (demoStore\<lparr>entries :=
               AList.update ''crls/c1'' (Bytes ''CRL 1:'') (entries demoStore)\<rparr>)) \<and>
   (\<exists>issuer bundle signingBundle tmpl crlBytes.
      fetchCertBundleByIssuerId demoStore ''i1'' True = Inr (issuer, bundle) \<and>
      parseCABundle demoEnv bundle = Inr signingBundle \<and>
      CreateRevocationList demoEnv tmpl signingBundle = Some crlBytes \<and>
      RevokedCertificates tmpl = [rev10] \<and> Number tmpl = 1 \<and>
      Storage_Put demoStore ''crls/c1'' (Bytes crlBytes) =
        Inr (demoStore\<lparr>entries :=
               AList.update ''crls/c1'' (Bytes ''CRL 1:a'') (entries demoStore)\<rparr>))"
proof -
  have a: "buildCRL disabledEnv demoBackend demoStore False ''i1'' [rev10] ''c1'' 1 =
             (None, demoStore)"
    by (simp add: buildCRL_def disabledEnv_def)
  have b: "buildCRL disabledEnv demoBackend demoStore True ''i1'' [rev10] ''c1'' 1 =
     (None, demoStore\<lparr>entries :=
        AList.update ''crls/c1'' (Bytes ''CRL 1:'') (entries demoStore)\<rparr>)"
    by (simp add: buildCRL_def disabledEnv_def buildCRL_write_def bundle_i1 Storage_Put_def)
  have c: "buildCRL demoEnv demoBackend demoStore False ''i1'' [rev10] ''c1'' 1 =
     (None, demoStore\<lparr>entries :=
        AList.update ''crls/c1'' (Bytes ''CRL 1:a'') (entries demoStore)\<rparr>)"
    by (simp add: buildCRL_def buildCRL_write_def bundle_i1 Storage_Put_def rev10_def
          hexDigit_def)
  have cfgD: "CRL disabledEnv demoStore = Inr (Some \<lparr>Expiry = ''72h'', Disable = True\<rparr>)"
    by (simp add: disabledEnv_def)
  have expD: "\<forall>ci. Some \<lparr>Expiry = ''72h'', Disable = True\<rparr> = Some ci \<and> Expiry ci \<noteq> '''' \<longrightarrow>
                ParseDuration disabledEnv (Expiry ci) \<noteq> None"
    by (auto simp: disabledEnv_def)
  have cfgE: "CRL demoEnv demoStore = Inr None"
    by simp
  have expE: "\<forall>ci. (None :: crlConfig option) = Some ci \<and> Expiry ci \<noteq> '''' \<longrightarrow>
                ParseDuration demoEnv (Expiry ci) \<noteq> None"
    by simp
  from buildCRL_disabled_and_forced [OF cfgD expD a]
       buildCRL_disabled_and_forced [OF cfgD expD b]
       buildCRL_disabled_and_forced [OF cfgE expE c] a b c
  show ?thesis
    by (simp add: Let_def)
qed

text \<open>
  The claim as written fails where the guards of \<^verbatim>\<open>buildCRL\<close> stop it: with the CRL
  disabled and not forced it returns an internal error when the configured expiry does not
  parse, and with the CRL disabled and forced it writes nothing when the issuer cannot be
  fetched (here \<open>i9\<close> is not stored).
\<close>

theorem buildCRL_guards_counterexample:
  "buildCRL badExpiryEnv demoBackend demoStore False ''i1'' [rev10] ''c1'' 1 =
     (Some (InternalError ''error parsing CRL duration''), demoStore) \<and>
   buildCRL disabledEnv demoBackend demoStore True ''i9'' [rev10] ''c1'' 1 =
     (Some (UserError ''could not fetch the CA certificate''), demoStore)"
proof -
  have "fetchIssuerById demoStore ''i9'' = Inl (UserError ''pki issuer id does not exist'')"
    by (simp add: fetchIssuerById_def Storage_Get_def demoStore_def issuerPrefix_def)
  then show ?thesis
    by (simp add: buildCRL_def badExpiryEnv_def disabledEnv_def buildCRL_write_def
          fetchCertBundleByIssuerId_def)
qed

section \<open>Revoking an expired certificate\<close>

text \<open>
  C9 (as amended). When the signing bundle of the default issuer is fetched, the serial is
  not that of its certificate, no revocation record exists for the serial, and the
  certificate stored for the serial parses with a \<^verbatim>\<open>NotAfter\<close> before the present
  instant plus two seconds, \<^verbatim>\<open>revokeCert\<close> returns no response and no error and changes
  nothing: the storage is as before (no revocation record is written) and so is the rebuild
  flag (no rebuild runs).
\<close>

theorem revokeCert_expired_noop:
  assumes "fetchCAInfo env (store w) defaultRef = Inr (Some signingBundle)"
    and "Replace (ToLower serial) (CHR ''-'') (CHR '':'') \<noteq>
         GetHexFormatted
           (certificate.SerialNumber (parsedCertBundle.Certificate signingBundle)) '':''"
    and "fetchCertBySerial env (store w) revokedPath serial = Inr None"
    and "fetchCertBySerial env (store w) ''certs/'' serial = Inr (Some certEntry)"
    and "parseStoredCertificate env certEntry = Some cert"
    and "NotAfter cert < Now env + 2 * 1000000000"
  shows "revokeCert env b cb w serial fromLease = ((None, None), cb, w)"
  using assms by (simp add: revokeCert_def Let_def)

lemma demo_expired_cert:
  "fetchCertBySerial demoEnv demoStore revokedPath ''0C'' = Inr None \<and>
   fetchCertBySerial demoEnv demoStore ''certs/'' ''0C'' = Inr (Some (Bytes ''L3'')) \<and>
   parseStoredCertificate demoEnv (Bytes ''L3'') = Some (leafCert ''root'' 12 1000)"
proof -
  have "Replace (ToLower ''0C'') (CHR '':'') (CHR ''-'') = ''0c''" by code_simp
  then show ?thesis
    by (simp add: Storage_Get_def demoStore_def revokedPath_def parseStoredCertificate_def)
qed

theorem revokeCert_expired_noop_witness:
  "revokeCert demoEnv demoBackend \<lparr>forceRebuild = 1\<rparr> demoWorld ''0C'' True =
     ((None, None), \<lparr>forceRebuild = 1\<rparr>, demoWorld)"
proof -
  have ca: "fetchCAInfo demoEnv (store demoWorld) defaultRef =
              Inr (Some \<lparr>parsedCertBundle.Certificate = certA,
                         parsedCertBundle.PrivateKey = Some signerA\<rparr>)"
    by simp
  have h: "GetHexFormatted 1 '':'' = ''01''" by code_simp
  have l: "Replace (ToLower ''0C'') (CHR ''-'') (CHR '':'') = ''0c''" by code_simp
  have ne: "Replace (ToLower ''0C'') (CHR ''-'') (CHR '':'') \<noteq>
         GetHexFormatted
           (certificate.SerialNumber (parsedCertBundle.Certificate
              \<lparr>parsedCertBundle.Certificate = certA,
               parsedCertBundle.PrivateKey = Some signerA\<rparr>)) '':''"
    using h by (simp add: l certA_def)
  have st: "store demoWorld = demoStore" by (simp add: demoWorld_def)
  have old: "NotAfter (leafCert ''root'' 12 1000) < Now demoEnv + 2 * 1000000000"
    by (simp add: leafCert_def)
  from demo_expired_cert st
  have r: "fetchCertBySerial demoEnv (store demoWorld) revokedPath ''0C'' = Inr None"
    and c: "fetchCertBySerial demoEnv (store demoWorld) ''certs/'' ''0C'' =
              Inr (Some (Bytes ''L3''))"
    and p: "parseStoredCertificate demoEnv (Bytes ''L3'') = Some (leafCert ''root'' 12 1000)"
    by simp_all
  from revokeCert_expired_noop [OF ca ne r c p old] show ?thesis .
qed

text \<open>
  The claim as written fails before the expiry is looked at: for the same expired
  certificate, with no revocation record, \<^verbatim>\<open>revokeCert\<close> answers with an error response
  when the signing bundle of the default issuer cannot be fetched; and the expired
  certificate with serial \<open>01\<close>, the serial of the CA, is refused.
\<close>

theorem revokeCert_guards_counterexample:
  "fetchCertBySerial noCAEnv demoStore revokedPath ''0C'' = Inr None \<and>
   fetchCertBySerial noCAEnv demoStore ''certs/'' ''0C'' = Inr (Some (Bytes ''L3'')) \<and>
   parseStoredCertificate noCAEnv (Bytes ''L3'') = Some (leafCert ''root'' 12 1000) \<and>
   NotAfter (leafCert ''root'' 12 1000) < Now noCAEnv + 2 * 1000000000 \<and>
   revokeCert noCAEnv demoBackend \<lparr>forceRebuild = 0\<rparr> demoWorld ''0C'' False =
     ((Some (ErrorResponse ''could not fetch the CA certificate''), None),
      \<lparr>forceRebuild = 0\<rparr>, demoWorld) \<and>
   fetchCertBySerial demoEnv demoStore revokedPath ''01'' = Inr None \<and>
   fetchCertBySerial demoEnv demoStore ''certs/'' ''01'' = Inr (Some (Bytes ''L4'')) \<and>
   parseStoredCertificate demoEnv (Bytes ''L4'') = Some (leafCert ''other'' 1 1000) \<and>
   NotAfter (leafCert ''other'' 1 1000) < Now demoEnv + 2 * 1000000000 \<and>
   revokeCert demoEnv demoBackend \<lparr>forceRebuild = 0\<rparr> demoWorld ''01'' False =
     ((Some (ErrorResponse ''adding CA to CRL is not allowed''), None),
      \<lparr>forceRebuild = 0\<rparr>, demoWorld)"
proof -
  have h: "GetHexFormatted 1 '':'' = ''01''" by code_simp
  have l: "Replace (ToLower ''01'') (CHR ''-'') (CHR '':'') = ''01''" by code_simp
  have n: "Replace (ToLower ''01'') (CHR '':'') (CHR ''-'') = ''01''" by code_simp
  have a: "revokeCert noCAEnv demoBackend \<lparr>forceRebuild = 0\<rparr> demoWorld ''0C'' False =
     ((Some (ErrorResponse ''could not fetch the CA certificate''), None),
      \<lparr>forceRebuild = 0\<rparr>, demoWorld)"
    by (simp add: revokeCert_def noCAEnv_def demoBackend_def)
  have b: "revokeCert demoEnv demoBackend \<lparr>forceRebuild = 0\<rparr> demoWorld ''01'' False =
     ((Some (ErrorResponse ''adding CA to CRL is not allowed''), None),
      \<lparr>forceRebuild = 0\<rparr>, demoWorld)"
    using h l by (simp add: revokeCert_def demoBackend_def certA_def)
  have c: "fetchCertBySerial demoEnv demoStore revokedPath ''01'' = Inr None \<and>
     fetchCertBySerial demoEnv demoStore ''certs/'' ''01'' = Inr (Some (Bytes ''L4'')) \<and>
     parseStoredCertificate demoEnv (Bytes ''L4'') = Some (leafCert ''other'' 1 1000)"
    using n by (simp add: Storage_Get_def demoStore_def revokedPath_def
                  parseStoredCertificate_def)
  have d: "NotAfter (leafCert ''root'' 12 1000) < Now demoEnv + 2 * 1000000000"
    "NotAfter (leafCert ''other'' 1 1000) < Now demoEnv + 2 * 1000000000"
    by (simp_all add: leafCert_def)
  have e: "fetchCertBySerial noCAEnv = fetchCertBySerial demoEnv"
    "parseStoredCertificate noCAEnv = parseStoredCertificate demoEnv"
    "Now noCAEnv = Now demoEnv"
    by (simp_all add: noCAEnv_def parseStoredCertificate_def fun_eq_iff split: sval.splits)
  show ?thesis
    unfolding e using a b c d demo_expired_cert by blast
qed

section \<open>Facts about the grouping of issuers\<close>

lemma groupOf_Cons: "groupOf (p # ps) k = (if fst p = k then snd p else groupOf ps k)"
  by (cases p) (auto simp: groupOf_def)

lemma set_concat_groups_update:
  "set (concat (map snd (AList.update k (groupOf groups k @ [i]) groups))) =
     insert i (set (concat (map snd groups)))"
  by (induction groups) (auto simp: groupOf_Cons, auto simp: groupOf_def)

lemma set_groups_update:
  "(\<Union>x\<in>set (AList.update k (groupOf groups k @ [i]) groups). set (snd x)) =
     insert i (\<Union>x\<in>set groups. set (snd x))"
  using set_concat_groups_update [of k groups i] by simp




lemma buildCRLs_issuers_members:
  "buildCRLs_issuers env s issuers certs groups = Inr (certs', groups') \<Longrightarrow>
   i \<in> set (concat (map snd groups')) \<Longrightarrow>
   i \<in> set (concat (map snd groups)) \<or> (\<exists>e. fetchIssuerById s i = Inr e \<and> KeyID e \<noteq> '''')"
proof (induction issuers arbitrary: certs groups)
  case Nil
  then show ?case by simp
next
  case (Cons issuer rest)
  from Cons.prems(1) obtain thisEntry where f: "fetchIssuerById s issuer = Inr thisEntry"
    by (auto split: sum.splits)
  show ?case
  proof (cases "length (KeyID thisEntry) = 0")
    case True
    with Cons.prems f have "buildCRLs_issuers env s rest certs groups = Inr (certs', groups')"
      by simp
    from Cons.IH [OF this Cons.prems(2)] show ?thesis .
  next
    case False
    with Cons.prems(1) f obtain thisCert where c: "GetCertificate env thisEntry = Inr thisCert"
      by (auto split: sum.splits)
    let ?k = "(KeyID thisEntry, RawIssuer thisCert)"
    let ?groups = "AList.update ?k (groupOf groups ?k @ [issuer]) groups"
    from Cons.prems(1) f c False
    have r: "buildCRLs_issuers env s rest (AList.update issuer thisCert certs) ?groups =
               Inr (certs', groups')"
      by simp
    from Cons.IH [OF r Cons.prems(2)] f False show ?thesis
      by (auto simp: set_groups_update)
  qed
qed

lemma groupsInOrder_set: "set (groupsInOrder env groups) = snd ` set groups"
  by (simp add: groupsInOrder_def)






lemma scan_cong:
  "(\<forall>i\<in>set g. IssuerIDCRLMap cfg1 i = IssuerIDCRLMap cfg i) \<Longrightarrow>
   buildCRLs_scan d u rm cfg1 g acc = buildCRLs_scan d u rm cfg g acc"
proof (induction g arbitrary: acc)
  case Nil
  then show ?case by simp
next
  case (Cons i rest)
  obtain rc rep cid where acc: "acc = (rc, rep, cid)" by (cases acc) auto
  from Cons.prems have eq: "IssuerIDCRLMap cfg1 i = IssuerIDCRLMap cfg i" by simp
  from Cons.prems have "\<forall>i\<in>set rest. IssuerIDCRLMap cfg1 i = IssuerIDCRLMap cfg i" by simp
  from Cons.IH [OF this]
  have ih: "\<And>acc. buildCRLs_scan d u rm cfg1 rest acc = buildCRLs_scan d u rm cfg rest acc" .
  show ?case
    unfolding acc by (simp add: eq ih cong: option.case_cong if_cong)
qed

lemma scan_unassigned:
  "d \<notin> set g \<Longrightarrow> buildCRLs_scan d u rm cfg g acc = buildCRLs_scan d [] rm cfg g acc"
proof (induction g arbitrary: acc)
  case Nil
  then show ?case by simp
next
  case (Cons i rest)
  obtain rc rep cid where acc: "acc = (rc, rep, cid)" by (cases acc) auto
  from Cons.prems have ne: "i \<noteq> d" by auto
  from Cons.prems have "d \<notin> set rest" by simp
  from Cons.IH [OF this]
  have ih: "\<And>acc. buildCRLs_scan d u rm cfg rest acc = buildCRLs_scan d [] rm cfg rest acc" .
  show ?case
    unfolding acc by (simp add: ne ih [of "(x, y, z)" for x y z] cong: option.case_cong if_cong)
qed



lemma group_unassigned:
  "d \<notin> set g \<Longrightarrow>
   buildCRLs_group env b f d u rm g cfg w = buildCRLs_group env b f d [] rm g cfg w"
proof (cases g)
  case Nil
  then show ?thesis by (simp add: buildCRLs_group_def)
next
  case (Cons first rest)
  assume "d \<notin> set g"
  from scan_unassigned [OF this, of u rm cfg "([], first, [])"] Cons
  have "buildCRLs_scan d u rm cfg (first # rest) ([], first, []) =
        buildCRLs_scan d [] rm cfg (first # rest) ([], first, [])"
    by simp
  then show ?thesis
    by (simp add: buildCRLs_group_def Cons)
qed




section \<open>The loop over the groups\<close>

lemma groups_unassigned:
  "(\<forall>g\<in>set G. d \<notin> set g) \<Longrightarrow>
   buildCRLs_groups env b f d u rm G cfg w = buildCRLs_groups env b f d [] rm G cfg w"
proof (induction G arbitrary: cfg w)
  case Nil
  show ?case by simp
next
  case (Cons g G)
  then have "d \<notin> set g" by simp
  from group_unassigned [OF this]
  have step: "buildCRLs_group env b f d u rm g cfg w = buildCRLs_group env b f d [] rm g cfg w" .
  from Cons.prems have rest: "\<forall>g\<in>set G. d \<notin> set g" by simp
  obtain r w' where r: "buildCRLs_group env b f d [] rm g cfg w = (r, w')"
    by (cases "buildCRLs_group env b f d [] rm g cfg w") auto
  show ?case
  proof (cases r)
    case (Inl e)
    with r step show ?thesis by simp
  next
    case (Inr cfg')
    with r step Cons.IH [OF rest, of cfg' w'] show ?thesis by simp
  qed
qed

lemma default_not_grouped:
  assumes "buildCRLs_issuers env s issuers [] [] = Inr (certs, groups)"
    and "d = '''' \<or> (\<exists>e. fetchIssuerById s d = Inr e \<and> KeyID e = '''')"
  shows "\<forall>g\<in>set (groupsInOrder env groups). d \<notin> set g"
proof (intro ballI notI)
  fix g
  assume "g \<in> set (groupsInOrder env groups)" and "d \<in> set g"
  then have "d \<in> set (concat (map snd groups))"
    by (auto simp: groupsInOrder_set)
  from buildCRLs_issuers_members [OF assms(1) this]
  obtain e where e: "fetchIssuerById s d = Inr e" "KeyID e \<noteq> ''''" by auto
  then have "d \<noteq> ''''" by (auto simp: fetchIssuerById_def)
  with assms(2) e show False by auto
qed

section \<open>The unassigned bucket without a default issuer\<close>

text \<open>
  C10. When no default issuer is configured, or the configured default issuer has an empty
  \<^verbatim>\<open>KeyID\<close>, and the issuers, the two configurations and the revocation records are read,
  then \<^verbatim>\<open>buildCRLs\<close> does what the loop over the groups does with an empty unassigned
  bucket, followed by the write of the CRL configuration: it succeeds whenever these succeed,
  and for no group, configuration and accumulator do the revoked certificates gathered for
  the group's CRL depend on the unassigned bucket.
\<close>

theorem buildCRLs_drops_unassigned:
  assumes "listIssuers (store w) = Inr issuers"
    and "getIssuersConfig (store w) = Inr config"
    and "DefaultIssuerId config = '''' \<or>
         (\<exists>e. fetchIssuerById (store w) (DefaultIssuerId config) = Inr e \<and> KeyID e = '''')"
    and "buildCRLs_issuers env (store w) issuers [] [] = Inr (certs, groups)"
    and "getLocalCRLConfig (store w) = Inr crlConfig"
    and "getRevokedCertEntries env (store w) certs = (Inr (unassigned, rm), s1)"
  shows "buildCRLs env b w f =
           (case buildCRLs_groups env b f (DefaultIssuerId config) [] rm
                   (groupsInOrder env groups) crlConfig (w\<lparr>store := s1\<rparr>) of
              (Inl e, w2) \<Rightarrow> (Some e, w2)
            | (Inr crlConfig', w2) \<Rightarrow>
                (case setLocalCRLConfig (store w2) crlConfig' of
                   Inl e \<Rightarrow>
                     (Some (PlainError
                        ''error building CRLs: unable to persist updated cluster-local CRL config''),
                      w2)
                 | Inr s3 \<Rightarrow> (None, w2\<lparr>store := s3\<rparr>))) \<and>
         (\<forall>g\<in>set (groupsInOrder env groups). \<forall>cfg acc.
            buildCRLs_scan (DefaultIssuerId config) unassigned rm cfg g acc =
            buildCRLs_scan (DefaultIssuerId config) [] rm cfg g acc)"
proof -
  from default_not_grouped [OF assms(4) assms(3)]
  have out: "\<forall>g\<in>set (groupsInOrder env groups). DefaultIssuerId config \<notin> set g" .
  have loop: "buildCRLs_groups env b f (DefaultIssuerId config) unassigned rm
                 (groupsInOrder env groups) crlConfig (w\<lparr>store := s1\<rparr>) =
              buildCRLs_groups env b f (DefaultIssuerId config) [] rm
                 (groupsInOrder env groups) crlConfig (w\<lparr>store := s1\<rparr>)"
    by (rule groups_unassigned [OF out])
  have main: "buildCRLs env b w f =
           (case buildCRLs_groups env b f (DefaultIssuerId config) unassigned rm
                   (groupsInOrder env groups) crlConfig (w\<lparr>store := s1\<rparr>) of
              (Inl e, w2) \<Rightarrow> (Some e, w2)
            | (Inr crlConfig', w2) \<Rightarrow>
                (case setLocalCRLConfig (store w2) crlConfig' of
                   Inl e \<Rightarrow>
                     (Some (PlainError
                        ''error building CRLs: unable to persist updated cluster-local CRL config''),
                      w2)
                 | Inr s3 \<Rightarrow> (None, w2\<lparr>store := s3\<rparr>)))"
    using assms(1,2,4,5,6) by (simp add: buildCRLs_def)
  have scan: "\<forall>g\<in>set (groupsInOrder env groups). \<forall>cfg acc.
            buildCRLs_scan (DefaultIssuerId config) unassigned rm cfg g acc =
            buildCRLs_scan (DefaultIssuerId config) [] rm cfg g acc"
    by (intro ballI allI scan_unassigned) (use out in blast)
  from main [unfolded loop] scan show ?thesis by (rule conjI)
qed

theorem buildCRLs_drops_unassigned_witness:
  "\<exists>unassigned rm s1.
     getRevokedCertEntries demoEnv demoStore [(''i1'', certA)] = (Inr (unassigned, rm), s1) \<and>
     map revokedCertificate.SerialNumber unassigned = [11] \<and>
     buildCRLs demoEnv demoBackend demoWorld False =
       (case buildCRLs_groups demoEnv demoBackend False '''' [] rm [[''i1'']]
               \<lparr>IssuerIDCRLMap = Map.empty, CRLNumberMap = Map.empty\<rparr>
               (demoWorld\<lparr>store := s1\<rparr>) of
          (Inl e, w2) \<Rightarrow> (Some e, w2)
        | (Inr crlConfig', w2) \<Rightarrow>
            (case setLocalCRLConfig (store w2) crlConfig' of
               Inl e \<Rightarrow>
                 (Some (PlainError
                    ''error building CRLs: unable to persist updated cluster-local CRL config''),
                  w2)
             | Inr s3 \<Rightarrow> (None, w2\<lparr>store := s3\<rparr>))) \<and>
     fst (buildCRLs demoEnv demoBackend demoWorld False) = None \<and>
     Storage_Get (store (snd (buildCRLs demoEnv demoBackend demoWorld False)))
       ''crls/00000000-0000-0000-0000-000000000000'' = Inr (Some (Bytes ''CRL 1:a''))"
proof -
  have st: "store demoWorld = demoStore" by (simp add: demoWorld_def)
  have li: "listIssuers (store demoWorld) = Inr [''i1'']" by code_simp
  have gc: "getIssuersConfig (store demoWorld) = Inr \<lparr>DefaultIssuerId = ''''\<rparr>" by code_simp
  have nd: "DefaultIssuerId \<lparr>DefaultIssuerId = ''''\<rparr> = '''' \<or>
         (\<exists>e. fetchIssuerById (store demoWorld)
                 (DefaultIssuerId \<lparr>DefaultIssuerId = ''''\<rparr>) = Inr e \<and> KeyID e = '''')"
    by simp
  have bi: "buildCRLs_issuers demoEnv (store demoWorld) [''i1''] [] [] =
              Inr ([(''i1'', certA)], [((''k1'', ''root''), [''i1''])])"
    by code_simp
  have lc: "getLocalCRLConfig (store demoWorld) =
              Inr \<lparr>IssuerIDCRLMap = Map.empty, CRLNumberMap = Map.empty\<rparr>"
    by (simp add: getLocalCRLConfig_def Storage_Get_def demoWorld_def demoStore_def
          storageLocalCRLConfig_def)
  have "case getRevokedCertEntries demoEnv (store demoWorld) [(''i1'', certA)] of
          (Inr (u, rm), s1) \<Rightarrow> map revokedCertificate.SerialNumber u = [11]
        | (Inl e, s1) \<Rightarrow> False"
    by code_simp
  then obtain u rm s1 where
    re: "getRevokedCertEntries demoEnv (store demoWorld) [(''i1'', certA)] = (Inr (u, rm), s1)"
    and u: "map revokedCertificate.SerialNumber u = [11]"
    by (auto split: prod.splits sum.splits)
  have go: "groupsInOrder demoEnv [((''k1'', ''root''), [''i1''])] = [[''i1'']]" by code_simp
  have ok: "fst (buildCRLs demoEnv demoBackend demoWorld False) = None" by code_simp
  have "case Storage_Get (store (snd (buildCRLs demoEnv demoBackend demoWorld False)))
               ''crls/00000000-0000-0000-0000-000000000000'' of
          Inr (Some (Bytes bs)) \<Rightarrow> bs = ''CRL 1:a''
        | _ \<Rightarrow> False"
    by code_simp
  then have doc: "Storage_Get (store (snd (buildCRLs demoEnv demoBackend demoWorld False)))
       ''crls/00000000-0000-0000-0000-000000000000'' = Inr (Some (Bytes ''CRL 1:a''))"
    by (auto split: sum.splits option.splits sval.splits)
  from buildCRLs_drops_unassigned [OF li gc nd bi lc re, of demoBackend False]
  have eq: "buildCRLs demoEnv demoBackend demoWorld False =
       (case buildCRLs_groups demoEnv demoBackend False '''' [] rm [[''i1'']]
               \<lparr>IssuerIDCRLMap = Map.empty, CRLNumberMap = Map.empty\<rparr>
               (demoWorld\<lparr>store := s1\<rparr>) of
          (Inl e, w2) \<Rightarrow> (Some e, w2)
        | (Inr crlConfig', w2) \<Rightarrow>
            (case setLocalCRLConfig (store w2) crlConfig' of
               Inl e \<Rightarrow>
                 (Some (PlainError
                    ''error building CRLs: unable to persist updated cluster-local CRL config''),
                  w2)
             | Inr s3 \<Rightarrow> (None, w2\<lparr>store := s3\<rparr>)))"
    unfolding go by simp
  from re have re': "getRevokedCertEntries demoEnv demoStore [(''i1'', certA)] =
      (Inr (u, rm), s1)"
    by (simp only: st)
  show ?thesis
    by (rule exI [of _ u], rule exI [of _ rm], rule exI [of _ s1])
       (intro conjI re' u eq ok doc)
qed

section \<open>Steps that write no CRL configuration\<close>

lemma keepsConfigs_refl [simp]: "keepsConfigs s s"
  by (simp add: keepsConfigs_def)











section \<open>What the loop over the groups changes in the configuration\<close>






lemma uniqueGroups_split:
  assumes "uniqueGroups G" and "g \<in> set G"
  shows "\<exists>pre post. G = pre @ g # post \<and> (\<forall>g'\<in>set pre. set g' \<inter> set g = {})"
proof -
  from assms(2) obtain pre post where G: "G = pre @ g # post" by (auto dest: split_list)
  with assms(1) have "g \<notin> set pre" by (simp add: uniqueGroups_def)
  with assms(1) G have "\<forall>g'\<in>set pre. set g' \<inter> set g = {}"
    by (auto simp: uniqueGroups_def)
  with G show ?thesis by blast
qed



section \<open>Two CRL identifiers in one group\<close>



section \<open>The counters of the CRL identifiers\<close>






section \<open>What a run of buildCRLs persists\<close>



section \<open>Steps that leave the faults of the backend as they are\<close>







section \<open>The sequence numbers of the CRLs\<close>




section \<open>One public key, two key entries\<close>

text \<open>
  C6. \<^verbatim>\<open>importKey\<close> looks for the key among the stored ones by comparing the normalised
  PEM text. The same private key in two PEM encodings is therefore imported twice: on an
  empty storage, the two imports below both report a new entry, and the storage ends with
  two key entries whose signers, and so whose public keys, are the same.
\<close>

theorem importKey_duplicate_public_key:
  "(case importKey demoEnv emptyWorld ''KEY-A'' ''first'' of
      (Inr (key1, existed1), w1) \<Rightarrow>
        (case importKey demoEnv w1 ''KEY-A (PKCS8)'' ''second'' of
           (Inr (key2, existed2), w2) \<Rightarrow>
             \<not> existed1 \<and> \<not> existed2 \<and>
             keyEntry.ID key1 \<noteq> keyEntry.ID key2 \<and>
             listKeys (store w2) = Inr [keyEntry.ID key1, keyEntry.ID key2] \<and>
             fetchKeyById (store w2) (keyEntry.ID key1) = Inr key1 \<and>
             fetchKeyById (store w2) (keyEntry.ID key2) = Inr key2 \<and>
             GetSigner demoEnv key1 = Inr signerA \<and>
             GetSigner demoEnv key2 = Inr signerA
         | (Inl e, w2) \<Rightarrow> False)
    | (Inl e, w1) \<Rightarrow> False)"
  by code_simp

section \<open>Facts about listings and identifiers\<close>

lemma trimPrefix_Some: "trimPrefix pfx p = Some r \<longleftrightarrow> p = pfx @ r"
  by (induction pfx p rule: trimPrefix.induct) auto

lemma upToSlash_id: "CHR ''/'' \<notin> set r \<Longrightarrow> upToSlash r = r"
  by (induction r) auto

lemma set_map_filter: "set (List.map_filter g ks) = {y. \<exists>k\<in>set ks. g k = Some y}"
  by (induction ks) (auto simp: map_filter_simps split: option.splits)

text \<open>A listing, as a set: the names under the prefix of the keys that hold an entry.\<close>

lemma Storage_List_set:
  assumes "Storage_List s pfx = Inr L"
  shows "set L = {y. \<exists>p\<in>dom (map_of (entries s)).
                    map_option upToSlash (trimPrefix pfx p) = Some y}"
    and "(OpList, pfx) \<notin> set (faulty s)"
proof -
  from assms show nf: "(OpList, pfx) \<notin> set (faulty s)"
    by (auto simp: Storage_List_def split: if_splits)
  with assms have "L = remdups (List.map_filter
                  (\<lambda>(p, v). map_option upToSlash (trimPrefix pfx p)) (entries s))"
    by (simp add: Storage_List_def)
  then show "set L = {y. \<exists>p\<in>dom (map_of (entries s)).
                    map_option upToSlash (trimPrefix pfx p) = Some y}"
    by (force simp: set_map_filter dom_map_of_conv_image_fst)
qed

lemma Storage_List_ok:
  "(OpList, pfx) \<notin> set (faulty s) \<Longrightarrow> \<exists>L. Storage_List s pfx = Inr L"
  by (simp add: Storage_List_def)

lemma hexDigit_range: "hexDigit d \<in> set ''0123456789abcdef''"
  unfolding hexDigit_def by (rule nth_mem) simp

lemma hexDigit_no_slash: "hexDigit d \<noteq> CHR ''/''"
proof
  assume "hexDigit d = CHR ''/''"
  with hexDigit_range [of d] have "CHR ''/'' \<in> set ''0123456789abcdef''" by simp
  then show False by simp
qed

lemma hexN_no_slash: "CHR ''/'' \<notin> set (hexN k n)"
proof (induction k arbitrary: n)
  case 0
  show ?case by simp
next
  case (Suc k)
  from Suc [of "n div 16"] hexDigit_no_slash [of "n mod 16"] show ?case by auto
qed

lemma FormatUUID_no_slash: "CHR ''/'' \<notin> set (FormatUUID n)"
proof -
  have "CHR ''/'' \<notin> set (take i (drop j (hexN 32 n)))" for i j
    using hexN_no_slash [of 32 n] by (auto dest!: in_set_takeD in_set_dropD)
  moreover have "CHR ''/'' \<notin> set (drop j (hexN 32 n))" for j
    using hexN_no_slash [of 32 n] by (auto dest!: in_set_dropD)
  moreover have "CHR ''/'' \<notin> set (take i (hexN 32 n))" for i
    using hexN_no_slash [of 32 n] by (auto dest!: in_set_takeD)
  ultimately show ?thesis
    unfolding FormatUUID_def Let_def by simp
qed

lemma FormatUUID_not_empty: "FormatUUID n \<noteq> ''''"
  by (simp add: FormatUUID_def Let_def)

lemma key_not_issuer [simp]:
  "keyPrefix @ x \<noteq> issuerPrefix @ y" "issuerPrefix @ y \<noteq> keyPrefix @ x"
  "keyPrefix @ x \<noteq> storageIssuerConfig" "issuerPrefix @ y \<noteq> storageKeyConfig"
  by (simp_all add: keyPrefix_def issuerPrefix_def storageIssuerConfig_def storageKeyConfig_def)

lemma trimPrefix_other [simp]:
  "trimPrefix keyPrefix (issuerPrefix @ y) = None"
  "trimPrefix keyPrefix storageKeyConfig = None"
  "trimPrefix keyPrefix storageIssuerConfig = None"
  "trimPrefix issuerPrefix (keyPrefix @ x) = None"
  "trimPrefix issuerPrefix storageIssuerConfig = None"
  "trimPrefix issuerPrefix storageKeyConfig = None"
  by (simp_all add: keyPrefix_def issuerPrefix_def storageIssuerConfig_def storageKeyConfig_def)

text \<open>
  Storages that differ by writes at the paths of \<open>W\<close> only: the faults are the same, no
  entry is removed, and the entries outside \<open>W\<close> are the same.
\<close>

lemma Storage_Put_entries:
  assumes "Storage_Put s p v = Inr s'"
  shows "faulty s' = faulty s" and "map_of (entries s') = (map_of (entries s))(p \<mapsto> v)"
  using assms by (auto simp: Storage_Put_def update_conv' split: if_splits)

lemma Storage_Get_map_of:
  "Storage_Get s p =
     (if (OpGet, p) \<in> set (faulty s) then Inl (PlainError ''storage: get failed'')
      else Inr (map_of (entries s) p))"
  by (simp add: Storage_Get_def)

section \<open>Writes that leave the other entries alone\<close>

lemma writesWithin_refl [simp]: "writesWithin W s s"
  by (simp add: writesWithin_def)

lemma writesWithin_trans:
  "writesWithin W s s' \<Longrightarrow> writesWithin W s' s'' \<Longrightarrow> writesWithin W s s''"
  unfolding writesWithin_def by (intro conjI) (simp, blast, simp)

lemma writesWithin_mono:
  "writesWithin W s s' \<Longrightarrow> (\<And>p. W p \<Longrightarrow> W' p) \<Longrightarrow> writesWithin W' s s'"
  by (auto simp: writesWithin_def)

lemma Storage_Put_within:
  "Storage_Put s p v = Inr s' \<Longrightarrow> W p \<Longrightarrow> writesWithin W s s'"
  by (auto simp: writesWithin_def Storage_Put_entries)

lemma writesWithin_Get:
  "writesWithin W s s' \<Longrightarrow> \<not> W p \<Longrightarrow> Storage_Get s' p = Storage_Get s p"
  by (simp add: writesWithin_def Storage_Get_map_of)

lemma writesWithin_List:
  assumes "writesWithin W s s'" and "\<And>p. W p \<Longrightarrow> trimPrefix pfx p = None"
    and "Storage_List s pfx = Inr L"
  shows "\<exists>L'. Storage_List s' pfx = Inr L' \<and> set L' = set L"
proof -
  from Storage_List_set [OF assms(3)] assms(1)
  have "(OpList, pfx) \<notin> set (faulty s')" by (simp add: writesWithin_def)
  from Storage_List_ok [OF this] obtain L' where L': "Storage_List s' pfx = Inr L'" ..
  have "p \<in> dom (map_of (entries s')) \<longleftrightarrow> p \<in> dom (map_of (entries s))"
    if "trimPrefix pfx p \<noteq> None" for p
  proof -
    from that assms(2) have "\<not> W p" by auto
    with assms(1) have "map_of (entries s') p = map_of (entries s) p"
      by (simp add: writesWithin_def)
    then show ?thesis by (simp add: dom_def)
  qed
  then have "{y. \<exists>p\<in>dom (map_of (entries s')).
                    map_option upToSlash (trimPrefix pfx p) = Some y} =
             {y. \<exists>p\<in>dom (map_of (entries s)).
                    map_option upToSlash (trimPrefix pfx p) = Some y}"
    by (intro Collect_cong) (metis option.distinct(1) option.map_disc_iff)
  with Storage_List_set(1) [OF L'] Storage_List_set(1) [OF assms(3)] L' show ?thesis by simp
qed

lemma writesWithin_fetchKey:
  "writesWithin W s s' \<Longrightarrow> \<not> W (keyPrefix @ l) \<Longrightarrow> fetchKeyById s' l = fetchKeyById s l"
  by (simp add: fetchKeyById_def writesWithin_Get)

lemma writesWithin_fetchIssuer:
  "writesWithin W s s' \<Longrightarrow> \<not> W (issuerPrefix @ l) \<Longrightarrow>
   fetchIssuerById s' l = fetchIssuerById s l"
  by (simp add: fetchIssuerById_def writesWithin_Get)

text \<open>The listing after the write of an entry whose name has no \<^verbatim>\<open>/\<close>.\<close>

lemma Storage_Put_List:
  assumes "Storage_Put s (pfx @ name) v = Inr s'" and "CHR ''/'' \<notin> set name"
    and "Storage_List s pfx = Inr L"
  shows "\<exists>L'. Storage_List s' pfx = Inr L' \<and> set L' = insert name (set L)"
proof -
  note e = Storage_Put_entries [OF assms(1)]
  from Storage_List_set [OF assms(3)] e(1)
  have "(OpList, pfx) \<notin> set (faulty s')" by simp
  from Storage_List_ok [OF this] obtain L' where L': "Storage_List s' pfx = Inr L'" ..
  have n: "map_option upToSlash (trimPrefix pfx (pfx @ name)) = Some name"
    using assms(2) by (simp add: trimPrefix_Some [THEN iffD2] upToSlash_id)
  have "{y. \<exists>p\<in>dom (map_of (entries s')).
                    map_option upToSlash (trimPrefix pfx p) = Some y} =
        insert name {y. \<exists>p\<in>dom (map_of (entries s)).
                    map_option upToSlash (trimPrefix pfx p) = Some y}"
    unfolding e(2) using n by auto
  with Storage_List_set(1) [OF L'] Storage_List_set(1) [OF assms(3)] L' show ?thesis by simp
qed

section \<open>Importing a key twice\<close>

lemma importKey_existing_None:
  "importKey_existing s kv L = Inr None \<Longrightarrow> l \<in> set L \<Longrightarrow>
   \<exists>k. fetchKeyById s l = Inr k \<and> keyEntry.PrivateKey k \<noteq> kv"
  by (induction L) (auto split: sum.splits if_splits)

lemma importKey_existing_found:
  assumes "n \<in> set L" and "fetchKeyById s n = Inr r" and "keyEntry.PrivateKey r = kv"
    and "\<forall>l\<in>set L. l \<noteq> n \<longrightarrow> (\<exists>k. fetchKeyById s l = Inr k \<and> keyEntry.PrivateKey k \<noteq> kv)"
  shows "importKey_existing s kv L = Inr (Some r)"
  using assms(1,4)
proof (induction L)
  case Nil
  then show ?case by simp
next
  case (Cons l L)
  show ?case
  proof (cases "l = n")
    case True
    with assms(2,3) show ?thesis by simp
  next
    case False
    with Cons.prems obtain k where "fetchKeyById s l = Inr k" "keyEntry.PrivateKey k \<noteq> kv"
      by auto
    moreover from False Cons.prems have "n \<in> set L" by simp
    moreover from Cons.prems
    have "\<forall>l\<in>set L. l \<noteq> n \<longrightarrow> (\<exists>k. fetchKeyById s l = Inr k \<and> keyEntry.PrivateKey k \<noteq> kv)"
      by simp
    ultimately show ?thesis using Cons.IH by simp
  qed
qed

lemma importKey_link_step:
  assumes "importKey_link env rid pub (i # rest) s = (e, s')"
  shows "s' = s \<or> importKey_link env rid pub rest s = (e, s') \<or>
     (\<exists>iss s1. writeIssuer s iss = Inr s1 \<and> importKey_link env rid pub rest s1 = (e, s'))"
  using assms
  by (simp split: sum.splits option.splits if_splits) blast+

lemma importKey_link_within:
  "importKey_link env rid pub Is s = (e, s') \<Longrightarrow>
   writesWithin (\<lambda>p. \<exists>x. p = issuerPrefix @ x) s s'"
proof (induction Is arbitrary: s)
  case Nil
  then show ?case by simp
next
  case (Cons i rest)
  from importKey_link_step [OF Cons.prems]
  consider "s' = s"
    | "importKey_link env rid pub rest s = (e, s')"
    | iss s1 where "writeIssuer s iss = Inr s1" "importKey_link env rid pub rest s1 = (e, s')"
    by blast
  then show ?case
  proof cases
    case 1
    then show ?thesis by simp
  next
    case 2
    then show ?thesis by (rule Cons.IH)
  next
    case 3
    from 3(1) have "writesWithin (\<lambda>p. \<exists>x. p = issuerPrefix @ x) s s1"
      unfolding writeIssuer_def by (rule Storage_Put_within) blast
    with Cons.IH [OF 3(2)] show ?thesis by (rule writesWithin_trans [rotated])
  qed
qed

text \<open>What a call of \<^verbatim>\<open>importKey\<close> that reports an entry has done.\<close>

lemma importKey_cases:
  assumes "importKey env w K n = (Inr (e, existed), w')"
  obtains (existing) L where
      "existed" "w' = w" "listKeys (store w) = Inr L"
      "(OpList, issuerPrefix) \<notin> set (faulty (store w))"
      "importKey_existing (store w) (TrimSpace K @ [CHR 0x0A]) L = Inr (Some e)"
  | (fresh) L w0 s1 s2 where
      "\<not> existed" "listKeys (store w) = Inr L"
      "importKey_existing (store w) (TrimSpace K @ [CHR 0x0A]) L = Inr None"
      "genKeyId w = (keyEntry.ID e, w0)"
      "keyEntry.Name e = n" "keyEntry.PrivateKey e = TrimSpace K @ [CHR 0x0A]"
      "(OpList, issuerPrefix) \<notin> set (faulty (store w))"
      "writeKey (store w0) e = Inr s1"
      "writesWithin (\<lambda>p. \<exists>x. p = issuerPrefix @ x) s1 s2"
      "writesWithin (\<lambda>p. p = storageKeyConfig) s2 (store w')"
proof -
  let ?kv = "TrimSpace K @ [CHR 0x0A]"
  from assms obtain L where L: "listKeys (store w) = Inr L"
    by (cases "listKeys (store w)") (auto simp: importKey_def)
  from assms L obtain Is where Is: "listIssuers (store w) = Inr Is"
    by (cases "listIssuers (store w)") (auto simp: importKey_def)
  then have nf: "(OpList, issuerPrefix) \<notin> set (faulty (store w))"
    by (simp add: listIssuers_def Storage_List_set(2))
  from assms L Is obtain x where x: "importKey_existing (store w) ?kv L = Inr x"
    by (cases "importKey_existing (store w) ?kv L") (auto simp: importKey_def)
  show thesis
  proof (cases x)
    case (Some k)
    with assms L Is x have "existed" "w' = w" "k = e" by (auto simp: importKey_def)
    with L nf x Some show thesis by (intro existing) simp_all
  next
    case None
    obtain newId w0 where g: "genKeyId w = (newId, w0)" by (cases "genKeyId w") auto
    let ?r0 = "\<lparr>keyEntry.ID = newId, keyEntry.Name = n, keyEntry.PrivateKeyType = '''',
                keyEntry.PrivateKey = ?kv\<rparr>"
    from assms L Is x None g obtain sg where sg: "GetSigner env ?r0 = Inr sg"
      by (cases "GetSigner env ?r0") (auto simp: importKey_def Let_def)
    let ?r = "?r0\<lparr>keyEntry.PrivateKeyType := KeyType sg\<rparr>"
    from assms L Is x None g sg obtain s1 where s1: "writeKey (store w0) ?r = Inr s1"
      by (cases "writeKey (store w0) ?r") (auto simp: importKey_def Let_def)
    obtain le s2 where lk: "importKey_link env newId (Public sg) Is s1 = (le, s2)"
      by (cases "importKey_link env newId (Public sg) Is s1") auto
    from assms L Is x None g sg s1 lk have le: "le = None"
      by (cases le) (auto simp: importKey_def Let_def)
    from assms L Is x None g sg s1 lk le obtain ds where ds: "isDefaultKeySet s2 = Inr ds"
      by (cases "isDefaultKeySet s2") (auto simp: importKey_def Let_def)
    have res: "e = ?r \<and> \<not> existed \<and>
               writesWithin (\<lambda>p. p = storageKeyConfig) s2 (store w')"
    proof (cases "length L = 0 \<or> \<not> ds")
      case True
      with assms L Is x None g sg s1 lk le ds obtain s3 where
        u: "updateDefaultKeyId s2 newId = Inr s3" and r: "e = ?r" "\<not> existed" "store w' = s3"
        by (cases "updateDefaultKeyId s2 newId") (auto simp: importKey_def Let_def)
      from u obtain cfg where "setKeysConfig s2 cfg = Inr s3"
        by (auto simp: updateDefaultKeyId_def split: sum.splits)
      then have "writesWithin (\<lambda>p. p = storageKeyConfig) s2 s3"
        unfolding setKeysConfig_def by (rule Storage_Put_within) simp
      with r show ?thesis by simp
    next
      case False
      with assms L Is x None g sg s1 lk le ds show ?thesis
        by (auto simp: importKey_def Let_def)
    qed
    from res have e: "e = ?r" by simp
    show thesis
    proof (rule fresh [of L w0 s1 s2])
      show "\<not> existed" using res by simp
      show "listKeys (store w) = Inr L" by (rule L)
      show "importKey_existing (store w) ?kv L = Inr None" using x None by simp
      show "genKeyId w = (keyEntry.ID e, w0)" using g e by simp
      show "keyEntry.Name e = n" using e by simp
      show "keyEntry.PrivateKey e = ?kv" using e by simp
      show "(OpList, issuerPrefix) \<notin> set (faulty (store w))" by (rule nf)
      show "writeKey (store w0) e = Inr s1" using s1 e by simp
      show "writesWithin (\<lambda>p. \<exists>x. p = issuerPrefix @ x) s1 s2"
        using lk by (rule importKey_link_within)
      show "writesWithin (\<lambda>p. p = storageKeyConfig) s2 (store w')" using res by simp
    qed
  qed
qed

lemma genUuid_world:
  "genUuid w = (c, w0) \<Longrightarrow> store w0 = store w \<and> c = FormatUUID (rand w (drawn w))"
  by (auto simp: genUuid_def)

lemma importKey_again:
  assumes first: "importKey env w K n1 = (Inr (e1, ex1), w1)"
    and same: "TrimSpace K' = TrimSpace K"
    and readable: "(OpGet, keyPrefix @ keyEntry.ID e1) \<notin> set (faulty (store w1))"
  shows "importKey env w1 K' n2 = (Inr (e1, True), w1) \<and> (\<not> ex1 \<longrightarrow> keyEntry.Name e1 = n1)"
  using first
proof (cases rule: importKey_cases)
  case (existing L)
  from Storage_List_ok [OF existing(4)] obtain Is where
    "listIssuers (store w) = Inr Is" by (auto simp: listIssuers_def)
  with existing show ?thesis by (simp add: importKey_def same)
next
  case (fresh L w0 s1 s2)
  let ?kv = "TrimSpace K @ [CHR 0x0A]"
  let ?id = "keyEntry.ID e1"
  from genUuid_world [OF fresh(4) [unfolded genKeyId_def]]
  have w0: "store w0 = store w" and id: "?id = FormatUUID (rand w (drawn w))" by simp_all
  from id have ne: "?id \<noteq> ''''" and ns: "CHR ''/'' \<notin> set ?id"
    by (simp_all add: FormatUUID_not_empty FormatUUID_no_slash)
  from fresh(8) w0 have put: "Storage_Put (store w) (keyPrefix @ ?id) (JKey e1) = Inr s1"
    by (simp add: writeKey_def)
  from put have a: "writesWithin (\<lambda>p. p = keyPrefix @ ?id) (store w) s1"
    by (rule Storage_Put_within) simp
  note b = fresh(9) and c = fresh(10)
  from a b c have flt: "faulty (store w1) = faulty (store w)" "faulty s1 = faulty (store w)"
    by (simp_all add: writesWithin_def)
  from Storage_Put_List [OF put ns fresh(2) [unfolded listKeys_def]] obtain L1 where
    L1: "Storage_List s1 keyPrefix = Inr L1" "set L1 = insert ?id (set L)" by blast
  have t1: "trimPrefix keyPrefix p = None" if "\<exists>x. p = issuerPrefix @ x" for p
    using that by auto
  have t2: "trimPrefix keyPrefix p = None" if "p = storageKeyConfig" for p
    using that by simp
  from writesWithin_List [OF b t1 L1(1)] obtain L2 where
    L2: "Storage_List s2 keyPrefix = Inr L2" "set L2 = set L1" by blast
  from writesWithin_List [OF c t2 L2(1)] obtain L3 where
    L3: "Storage_List (store w1) keyPrefix = Inr L3" "set L3 = set L2" by blast
  from L1 L2 L3 have L3': "set L3 = insert ?id (set L)" by simp
  from fresh(7) flt have "(OpList, issuerPrefix) \<notin> set (faulty (store w1))" by simp
  from Storage_List_ok [OF this] obtain Is' where
    Is': "listIssuers (store w1) = Inr Is'" by (auto simp: listIssuers_def)
  from readable flt have "(OpGet, keyPrefix @ ?id) \<notin> set (faulty (store w))" by simp
  with put have "Storage_Get s1 (keyPrefix @ ?id) = Inr (Some (JKey e1))"
    by (simp add: Storage_Get_Put)
  moreover from b have "Storage_Get s2 (keyPrefix @ ?id) = Storage_Get s1 (keyPrefix @ ?id)"
    by (rule writesWithin_Get) simp
  moreover from c
  have "Storage_Get (store w1) (keyPrefix @ ?id) = Storage_Get s2 (keyPrefix @ ?id)"
    by (rule writesWithin_Get) simp
  ultimately have new: "fetchKeyById (store w1) ?id = Inr e1"
    using ne by (simp add: fetchKeyById_def)
  have old: "\<exists>k. fetchKeyById (store w1) l = Inr k \<and> keyEntry.PrivateKey k \<noteq> ?kv"
    if "l \<in> set L3" "l \<noteq> ?id" for l
  proof -
    from that L3' have "l \<in> set L" by simp
    from importKey_existing_None [OF fresh(3) this] obtain k where
      k: "fetchKeyById (store w) l = Inr k" "keyEntry.PrivateKey k \<noteq> ?kv" by blast
    from that(2) have "keyPrefix @ l \<noteq> keyPrefix @ ?id" by simp
    with a have "fetchKeyById s1 l = fetchKeyById (store w) l"
      by (rule writesWithin_fetchKey)
    moreover from b have "fetchKeyById s2 l = fetchKeyById s1 l"
      by (rule writesWithin_fetchKey) simp
    moreover from c have "fetchKeyById (store w1) l = fetchKeyById s2 l"
      by (rule writesWithin_fetchKey) simp
    ultimately show ?thesis using k by simp
  qed
  from L3' have "?id \<in> set L3" by simp
  from importKey_existing_found [OF this new fresh(6)] old
  have "importKey_existing (store w1) ?kv L3 = Inr (Some e1)" by blast
  with L3(1) Is' fresh(5) show ?thesis by (simp add: importKey_def same listKeys_def)
qed

section \<open>Importing an issuer twice\<close>

lemma importIssuer_existing_None:
  "importIssuer_existing s cv L = Inr None \<Longrightarrow> l \<in> set L \<Longrightarrow>
   \<exists>i. fetchIssuerById s l = Inr i \<and> issuerEntry.Certificate i \<noteq> cv"
  by (induction L) (auto split: sum.splits if_splits)

lemma importIssuer_existing_found:
  assumes "n \<in> set L" and "fetchIssuerById s n = Inr r" and "issuerEntry.Certificate r = cv"
    and "\<forall>l\<in>set L. l \<noteq> n \<longrightarrow>
           (\<exists>i. fetchIssuerById s l = Inr i \<and> issuerEntry.Certificate i \<noteq> cv)"
  shows "importIssuer_existing s cv L = Inr (Some r)"
  using assms(1,4)
proof (induction L)
  case Nil
  then show ?case by simp
next
  case (Cons l L)
  show ?case
  proof (cases "l = n")
    case True
    with assms(2,3) show ?thesis by simp
  next
    case False
    with Cons.prems obtain i where
      "fetchIssuerById s l = Inr i" "issuerEntry.Certificate i \<noteq> cv"
      by auto
    moreover from False Cons.prems have "n \<in> set L" by simp
    moreover from Cons.prems
    have "\<forall>l\<in>set L. l \<noteq> n \<longrightarrow>
            (\<exists>i. fetchIssuerById s l = Inr i \<and> issuerEntry.Certificate i \<noteq> cv)"
      by simp
    ultimately show ?thesis using Cons.IH by simp
  qed
qed

text \<open>What a call of \<^verbatim>\<open>importIssuer\<close> that reports an entry has done.\<close>

lemma importIssuer_cases:
  assumes "importIssuer env w C n = (Inr (e, existed), w')"
  obtains (existing) L where
      "existed" "w' = w" "listIssuers (store w) = Inr L"
      "(OpList, keyPrefix) \<notin> set (faulty (store w))"
      "importIssuer_existing (store w) (TrimSpace C @ [CHR 0x0A]) L = Inr (Some e)"
  | (fresh) L w0 s1 where
      "\<not> existed" "listIssuers (store w) = Inr L"
      "importIssuer_existing (store w) (TrimSpace C @ [CHR 0x0A]) L = Inr None"
      "genIssuerId w = (issuerEntry.ID e, w0)"
      "issuerEntry.Name e = n" "issuerEntry.Certificate e = TrimSpace C @ [CHR 0x0A]"
      "(OpList, keyPrefix) \<notin> set (faulty (store w))"
      "rebuildIssuersChains (store w0) e = Inr s1"
      "writesWithin (\<lambda>p. p = storageIssuerConfig) s1 (store w')"
proof -
  let ?cv = "TrimSpace C @ [CHR 0x0A]"
  from assms obtain L where L: "listIssuers (store w) = Inr L"
    by (cases "listIssuers (store w)") (auto simp: importIssuer_def)
  from assms L obtain Ks where Ks: "listKeys (store w) = Inr Ks"
    by (cases "listKeys (store w)") (auto simp: importIssuer_def)
  then have nf: "(OpList, keyPrefix) \<notin> set (faulty (store w))"
    by (simp add: listKeys_def Storage_List_set(2))
  from assms L Ks obtain x where x: "importIssuer_existing (store w) ?cv L = Inr x"
    by (cases "importIssuer_existing (store w) ?cv L") (auto simp: importIssuer_def)
  show thesis
  proof (cases x)
    case (Some i)
    with assms L Ks x have "existed" "w' = w" "i = e" by (auto simp: importIssuer_def)
    with L nf x Some show thesis by (intro existing) simp_all
  next
    case None
    obtain newId w0 where g: "genIssuerId w = (newId, w0)" by (cases "genIssuerId w") auto
    let ?r0 = "\<lparr>issuerEntry.ID = newId, issuerEntry.Name = n, KeyID = '''',
                issuerEntry.Certificate = ?cv, issuerEntry.CAChain = [],
                ManualChain = [], issuerEntry.SerialNumber = '''',
                LeafNotAfterBehavior = ErrNotAfterBehavior\<rparr>"
    note run = assms L Ks x None g
    from run have cnt: "Count ?cv ''-BEGIN '' = 1"
      by (auto simp: importIssuer_def Let_def split: if_splits)
    from run cnt obtain cert where cert: "GetCertificate env ?r0 = Inr cert"
      by (cases "GetCertificate env ?r0") (auto simp: importIssuer_def Let_def)
    from run cnt cert have ca: "BasicConstraintsValid cert" "IsCA cert"
      by (auto simp: importIssuer_def Let_def split: if_splits)
    let ?r1 = "?r0\<lparr>issuerEntry.SerialNumber :=
                 TrimSpace (GetHexFormatted (certificate.SerialNumber cert) '':'')\<rparr>"
    from run cnt cert ca obtain linked where
      lk: "importIssuer_link env (store w0) cert Ks = Inr linked"
      by (cases "importIssuer_link env (store w0) cert Ks")
         (auto simp: importIssuer_def Let_def)
    let ?r = "?r1\<lparr>KeyID := linked\<rparr>"
    from run cnt cert ca lk obtain s1 where s1: "rebuildIssuersChains (store w0) ?r = Inr s1"
      by (cases "rebuildIssuersChains (store w0) ?r") (auto simp: importIssuer_def Let_def)
    from run cnt cert ca lk s1 obtain ds where ds: "isDefaultIssuerSet s1 = Inr ds"
      by (cases "isDefaultIssuerSet s1") (auto simp: importIssuer_def Let_def)
    have res: "e = ?r \<and> \<not> existed \<and>
               writesWithin (\<lambda>p. p = storageIssuerConfig) s1 (store w')"
    proof (cases "length L = 0 \<or> \<not> ds")
      case True
      with run cnt cert ca lk s1 ds obtain s2 where
        u: "updateDefaultIssuerId s1 newId = Inr s2"
        and r: "e = ?r" "\<not> existed" "store w' = s2"
        by (cases "updateDefaultIssuerId s1 newId") (auto simp: importIssuer_def Let_def)
      from u obtain cfg where "setIssuersConfig s1 cfg = Inr s2"
        by (auto simp: updateDefaultIssuerId_def split: sum.splits)
      then have "writesWithin (\<lambda>p. p = storageIssuerConfig) s1 s2"
        unfolding setIssuersConfig_def by (rule Storage_Put_within) simp
      with r show ?thesis by simp
    next
      case False
      with run cnt cert ca lk s1 ds show ?thesis by (auto simp: importIssuer_def Let_def)
    qed
    from res have e: "e = ?r" by simp
    show thesis
    proof (rule fresh [of L w0 s1])
      show "\<not> existed" using res by simp
      show "listIssuers (store w) = Inr L" by (rule L)
      show "importIssuer_existing (store w) ?cv L = Inr None" using x None by simp
      show "genIssuerId w = (issuerEntry.ID e, w0)" using g e by simp
      show "issuerEntry.Name e = n" using e by simp
      show "issuerEntry.Certificate e = ?cv" using e by simp
      show "(OpList, keyPrefix) \<notin> set (faulty (store w))" by (rule nf)
      show "rebuildIssuersChains (store w0) e = Inr s1" using s1 e by simp
      show "writesWithin (\<lambda>p. p = storageIssuerConfig) s1 (store w')" using res by simp
    qed
  qed
qed

lemma importIssuer_again:
  assumes first: "importIssuer env w C n1 = (Inr (e1, ex1), w1)"
    and same: "TrimSpace C' = TrimSpace C"
    and readable: "(OpGet, issuerPrefix @ issuerEntry.ID e1) \<notin> set (faulty (store w1))"
  shows "importIssuer env w1 C' n2 = (Inr (e1, True), w1) \<and>
         (\<not> ex1 \<longrightarrow> issuerEntry.Name e1 = n1)"
  using first
proof (cases rule: importIssuer_cases)
  case (existing L)
  from Storage_List_ok [OF existing(4)] obtain Ks where
    "listKeys (store w) = Inr Ks" by (auto simp: listKeys_def)
  with existing show ?thesis by (simp add: importIssuer_def same)
next
  case (fresh L w0 s1)
  let ?cv = "TrimSpace C @ [CHR 0x0A]"
  let ?id = "issuerEntry.ID e1"
  from genUuid_world [OF fresh(4) [unfolded genIssuerId_def]]
  have w0: "store w0 = store w" and id: "?id = FormatUUID (rand w (drawn w))" by simp_all
  from id have ne: "?id \<noteq> ''''" and ns: "CHR ''/'' \<notin> set ?id"
    by (simp_all add: FormatUUID_not_empty FormatUUID_no_slash)
  from fresh(8) w0
  have put: "Storage_Put (store w) (issuerPrefix @ ?id) (JIssuer e1) = Inr s1"
    by (simp add: rebuildIssuersChains_def writeIssuer_def)
  from put have a: "writesWithin (\<lambda>p. p = issuerPrefix @ ?id) (store w) s1"
    by (rule Storage_Put_within) simp
  note c = fresh(9)
  from a c have flt: "faulty (store w1) = faulty (store w)" "faulty s1 = faulty (store w)"
    by (simp_all add: writesWithin_def)
  from Storage_Put_List [OF put ns fresh(2) [unfolded listIssuers_def]] obtain L1 where
    L1: "Storage_List s1 issuerPrefix = Inr L1" "set L1 = insert ?id (set L)" by blast
  have t2: "trimPrefix issuerPrefix p = None" if "p = storageIssuerConfig" for p
    using that by simp
  from writesWithin_List [OF c t2 L1(1)] obtain L3 where
    L3: "Storage_List (store w1) issuerPrefix = Inr L3" "set L3 = set L1" by blast
  from L1 L3 have L3': "set L3 = insert ?id (set L)" by simp
  from fresh(7) flt have "(OpList, keyPrefix) \<notin> set (faulty (store w1))" by simp
  from Storage_List_ok [OF this] obtain Ks' where
    Ks': "listKeys (store w1) = Inr Ks'" by (auto simp: listKeys_def)
  from readable flt have "(OpGet, issuerPrefix @ ?id) \<notin> set (faulty (store w))" by simp
  with put have "Storage_Get s1 (issuerPrefix @ ?id) = Inr (Some (JIssuer e1))"
    by (simp add: Storage_Get_Put)
  moreover from c
  have "Storage_Get (store w1) (issuerPrefix @ ?id) = Storage_Get s1 (issuerPrefix @ ?id)"
    by (rule writesWithin_Get) simp
  ultimately have new: "fetchIssuerById (store w1) ?id = Inr e1"
    using ne by (simp add: fetchIssuerById_def)
  have old: "\<exists>i. fetchIssuerById (store w1) l = Inr i \<and> issuerEntry.Certificate i \<noteq> ?cv"
    if "l \<in> set L3" "l \<noteq> ?id" for l
  proof -
    from that L3' have "l \<in> set L" by simp
    from importIssuer_existing_None [OF fresh(3) this] obtain i where
      i: "fetchIssuerById (store w) l = Inr i" "issuerEntry.Certificate i \<noteq> ?cv" by blast
    from that(2) have "issuerPrefix @ l \<noteq> issuerPrefix @ ?id" by simp
    with a have "fetchIssuerById s1 l = fetchIssuerById (store w) l"
      by (rule writesWithin_fetchIssuer)
    moreover from c have "fetchIssuerById (store w1) l = fetchIssuerById s1 l"
      by (rule writesWithin_fetchIssuer) simp
    ultimately show ?thesis using i by simp
  qed
  from L3' have "?id \<in> set L3" by simp
  from importIssuer_existing_found [OF this new fresh(6)] old
  have "importIssuer_existing (store w1) ?cv L3 = Inr (Some e1)" by blast
  with L3(1) Ks' fresh(5) show ?thesis by (simp add: importIssuer_def same listIssuers_def)
qed

section \<open>Importing the same material twice\<close>

text \<open>
  C5. After a call of \<^verbatim>\<open>importKey\<close> that returned an entry, a second call with key
  material that is the same after normalisation (the surrounding white space trimmed, one
  newline appended) and with any name returns this very entry, with its identifier and its
  name, and \<open>existed = True\<close>, and leaves the storage as it was, provided the read of the
  entry does not fail; when the first call created the entry, its name is the name given to
  the first call. The same holds of \<^verbatim>\<open>importIssuer\<close> and the certificate material.
\<close>

theorem import_twice:
  "(importKey env w K n1 = (Inr (key1, existedK), wK) \<and> TrimSpace K' = TrimSpace K \<and>
    (OpGet, keyPrefix @ keyEntry.ID key1) \<notin> set (faulty (store wK)) \<longrightarrow>
      importKey env wK K' n2 = (Inr (key1, True), wK) \<and>
      (\<not> existedK \<longrightarrow> keyEntry.Name key1 = n1)) \<and>
   (importIssuer env w C n1 = (Inr (issuer1, existedI), wI) \<and> TrimSpace C' = TrimSpace C \<and>
    (OpGet, issuerPrefix @ issuerEntry.ID issuer1) \<notin> set (faulty (store wI)) \<longrightarrow>
      importIssuer env wI C' n2 = (Inr (issuer1, True), wI) \<and>
      (\<not> existedI \<longrightarrow> issuerEntry.Name issuer1 = n1))"
  using importKey_again [of env w K n1 key1 existedK wK K' n2]
    importIssuer_again [of env w C n1 issuer1 existedI wI C' n2]
  by blast

theorem import_twice_witness:
  "\<exists>key1 wK issuer1 wI.
     importKey demoEnv emptyWorld ''KEY-A'' ''first'' = (Inr (key1, False), wK) \<and>
     importKey demoEnv wK ('' '' @ ''KEY-A'' @ [CHR 0x0A]) ''second'' = (Inr (key1, True), wK) \<and>
     keyEntry.ID key1 = ''00000000-0000-0000-0000-000000000000'' \<and>
     keyEntry.Name key1 = ''first'' \<and>
     importIssuer demoEnv emptyWorld ''-BEGIN A'' ''root'' = (Inr (issuer1, False), wI) \<and>
     importIssuer demoEnv wI ([CHR 0x0A] @ ''-BEGIN A'' @ '' '') ''other'' =
       (Inr (issuer1, True), wI) \<and>
     issuerEntry.ID issuer1 = ''00000000-0000-0000-0000-000000000000'' \<and>
     issuerEntry.Name issuer1 = ''root''"
proof -
  have "case importKey demoEnv emptyWorld ''KEY-A'' ''first'' of
          (Inr (key1, existed), wK) \<Rightarrow>
            \<not> existed \<and> faulty (store wK) = [] \<and>
            keyEntry.ID key1 = ''00000000-0000-0000-0000-000000000000''
        | (Inl e, wK) \<Rightarrow> False"
    by code_simp
  then obtain key1 wK where
    k1: "importKey demoEnv emptyWorld ''KEY-A'' ''first'' = (Inr (key1, False), wK)"
    and kf: "faulty (store wK) = []"
    and kid: "keyEntry.ID key1 = ''00000000-0000-0000-0000-000000000000''"
    by (auto split: prod.splits sum.splits)
  have kt: "TrimSpace ('' '' @ ''KEY-A'' @ [CHR 0x0A]) = TrimSpace ''KEY-A''" by code_simp
  have "case importIssuer demoEnv emptyWorld ''-BEGIN A'' ''root'' of
          (Inr (issuer1, existed), wI) \<Rightarrow>
            \<not> existed \<and> faulty (store wI) = [] \<and>
            issuerEntry.ID issuer1 = ''00000000-0000-0000-0000-000000000000''
        | (Inl e, wI) \<Rightarrow> False"
    by code_simp
  then obtain issuer1 wI where
    i1: "importIssuer demoEnv emptyWorld ''-BEGIN A'' ''root'' = (Inr (issuer1, False), wI)"
    and "faulty (store wI) = []"
    and iid: "issuerEntry.ID issuer1 = ''00000000-0000-0000-0000-000000000000''"
    by (auto split: prod.splits sum.splits)
  have it: "TrimSpace ([CHR 0x0A] @ ''-BEGIN A'' @ '' '') = TrimSpace ''-BEGIN A''"
    by code_simp
  from import_twice [of demoEnv emptyWorld "''KEY-A''" "''first''" key1 False wK
      "'' '' @ ''KEY-A'' @ [CHR 0x0A]" "''second''" "''-BEGIN A''" issuer1 False wI
      "[CHR 0x0A] @ ''-BEGIN A'' @ '' ''"]
    k1 kf kt
  have k2: "importKey demoEnv wK ('' '' @ ''KEY-A'' @ [CHR 0x0A]) ''second'' =
              (Inr (key1, True), wK)"
    and kn: "keyEntry.Name key1 = ''first''"
    by simp_all
  from import_twice [of demoEnv emptyWorld "''-BEGIN A''" "''root''" key1 False wK
      "''-BEGIN A''" "''other''" "''-BEGIN A''" issuer1 False wI
      "[CHR 0x0A] @ ''-BEGIN A'' @ '' ''"]
    i1 \<open>faulty (store wI) = []\<close> it
  have i2: "importIssuer demoEnv wI ([CHR 0x0A] @ ''-BEGIN A'' @ '' '') ''other'' =
              (Inr (issuer1, True), wI)"
    and "issuerEntry.Name issuer1 = ''root''"
    by simp_all
  with k1 k2 kid kn i1 iid show ?thesis by blast
qed

end
